theory Spec2Isabelle
  imports Complex_Main "HOL-Library.Log_Nat"
begin

section \<open>The CPS dataset builder (openfisca\_us/data/datasets/cps/cps.py)\<close>

text \<open>
  The module turns the five raw tables of one survey year (person, tax unit, family,
  SPM unit, household) into one flat store of named columns. The embedding follows the
  module function by function.

  Modelling decisions:
  \<^item> A pandas DataFrame is a list of rows, each row a record of the raw fields the module
    reads; a column \<open>person.PH_SEQ\<close> is \<open>map PH_SEQ person\<close>. All columns of one
    frame therefore have the frame's length, as in pandas.
  \<^item> Raw fields are integers (\<open>int\<close>, unbounded). The range of int64 is not modelled.
  \<^item> A stored dataset is a list of reals: an integer column is stored through
    \<open>of_int\<close>, and the float division \<open>/ 1e2\<close> of the weights is exact division.
    NaN is not modelled.
  \<^item> The age expression \<open>80 + 5 * np.random.rand(n)\<close> is float64 arithmetic, with the
    rounding of each operation written out (see the float64 subsection).
  \<^item> The open h5py file is a map from dataset name to stored column. Assigning to a
    name that already exists raises in h5py, and reading a missing name raises; both are
    branches of the model.
  \<^item> A function that raises returns \<open>Inl (e, cps)\<close>: the error together with the
    contents the file has at that moment. A function that completes returns \<open>Inr cps\<close>.
\<close>

subsection \<open>Raw tables\<close>

record person_row =
  PH_SEQ :: int
  P_SEQ :: int
  PF_SEQ :: int
  TAX_ID :: int
  SPM_ID :: int
  A_FNLWGT :: int
  A_AGE :: int
  WSAL_VAL :: int
  SEMP_VAL :: int
  FRSE_VAL :: int
  SS_VAL :: int
  UC_VAL :: int
  OI_OFF :: int
  OI_VAL :: int

text \<open>The tax-unit table's \<open>TAX_ID\<close> and the SPM-unit table's \<open>SPM_ID\<close> carry a
  prefix, since the person table has fields of the same names.\<close>

record tax_unit_row =
  tu_TAX_ID :: int

record family_row =
  FH_SEQ :: int
  FFPOS :: int
  FSUP_WGT :: int

record spm_unit_row =
  su_SPM_ID :: int
  SPM_WEIGHT :: int
  SPM_TOTVAL :: int
  SPM_SNAPSUB :: int
  SPM_CAPHOUSESUB :: int
  SPM_SCHLUNCH :: int
  SPM_ENGVAL :: int
  SPM_WICVAL :: int
  SPM_FICA :: int
  SPM_FEDTAX :: int
  SPM_STTAX :: int
  SPM_CAPWKCCXPNS :: int
  SPM_MEDXPNS :: int
  SPM_POVTHRESHOLD :: int
  SPM_RESOURCES :: int

record household_row =
  H_SEQ :: int
  HSUP_WGT :: int
  GESTFIPS :: int

record raw_data =
  person_table :: "person_row list"
  tax_unit_table :: "tax_unit_row list"
  family_table :: "family_row list"
  spm_unit_table :: "spm_unit_row list"
  household_table :: "household_row list"

subsection \<open>Errors and the output file\<close>

datatype error =
    KeyError      \<comment> \<open>a label or a name that is not there\<close>
  | ValueError    \<comment> \<open>pandas: lengths that do not match\<close>
  | NameExists    \<comment> \<open>h5py: a dataset of that name is already in the file\<close>
  | RawCPSError   \<comment> \<open>the raw-data collaborator failed\<close>

type_synonym h5file = "string \<rightharpoonup> real list"

type_synonym outcome = "(error \<times> h5file) + h5file"

definition andThen :: "'e + 'a \<Rightarrow> ('a \<Rightarrow> 'e + 'b) \<Rightarrow> 'e + 'b" where
  "andThen r f = (case r of Inl e \<Rightarrow> Inl e | Inr x \<Rightarrow> f x)"

definition raise_in :: "h5file \<Rightarrow> error + 'a \<Rightarrow> (error \<times> h5file) + 'a" where
  "raise_in cps r = (case r of Inl e \<Rightarrow> Inl (e, cps) | Inr x \<Rightarrow> Inr x)"

text \<open>\<open>cps[name] = values\<close>\<close>

definition h5_setitem :: "string \<Rightarrow> real list \<Rightarrow> h5file \<Rightarrow> outcome" where
  "h5_setitem name vals cps =
     (case cps name of
        Some _ \<Rightarrow> Inl (NameExists, cps)
      | None \<Rightarrow> Inr (cps(name \<mapsto> vals)))"

text \<open>\<open>cps[name][...]\<close>\<close>

definition h5_getitem :: "string \<Rightarrow> h5file \<Rightarrow> (error \<times> h5file) + real list" where
  "h5_getitem name cps =
     (case cps name of
        None \<Rightarrow> Inl (KeyError, cps)
      | Some vals \<Rightarrow> Inr vals)"

subsection \<open>The pandas and numpy operations the module uses\<close>

text \<open>A Series is its rows in order, each an index label with a value.\<close>

type_synonym series = "(real \<times> real) list"

text \<open>\<open>Series(values, index=index)\<close>: the lengths must agree.\<close>

definition Series :: "real list \<Rightarrow> real list \<Rightarrow> error + series" where
  "Series vals index =
     (if length vals = length index then Inr (zip index vals) else Inl ValueError)"

text \<open>
  \<open>s[keys]\<close> for an array of keys on an integer-labelled Series selects by label: for
  each key in turn, every row that carries the label, in row order. A key that labels no
  row raises KeyError.
\<close>

fun series_getitem :: "series \<Rightarrow> real list \<Rightarrow> error + series" where
  "series_getitem s [] = Inr []"
| "series_getitem s (k # ks) =
     (case filter (\<lambda>row. fst row = k) s of
        [] \<Rightarrow> Inl KeyError
      | m # ms \<Rightarrow> andThen (series_getitem s ks) (\<lambda>rest. Inr ((m # ms) @ rest)))"

text \<open>
  \<open>s.groupby(by).first()\<close> with an array \<open>by\<close>: row \<open>i\<close> of the Series belongs to the
  group \<open>by[i]\<close>, so the array must be as long as the Series. The result has one row per
  distinct key, the keys in ascending order (groupby sorts its keys), each with the value
  of the first row of its group.
\<close>

definition group_values :: "real list \<Rightarrow> series \<Rightarrow> real \<Rightarrow> real list" where
  "group_values by s g = map snd (filter (\<lambda>kv. fst kv = g) (zip by (map snd s)))"

definition groupby_first :: "series \<Rightarrow> real list \<Rightarrow> error + series" where
  "groupby_first s by =
     (if length by \<noteq> length s then Inl ValueError
      else Inr (map (\<lambda>g. (g, hd (group_values by s g))) (sort (remdups by))))"

text \<open>\<open>col.between(lo, hi)\<close> is inclusive at both ends; \<open>col.isin(codes)\<close>.\<close>

definition between :: "int \<Rightarrow> int \<Rightarrow> int list \<Rightarrow> bool list" where
  "between lo hi col = map (\<lambda>x. lo \<le> x \<and> x \<le> hi) col"

definition isin :: "int list \<Rightarrow> int list \<Rightarrow> bool list" where
  "isin codes col = map (\<lambda>x. x \<in> set codes) col"

text \<open>\<open>mask * col\<close>: a boolean counts as 1 or 0.\<close>

definition mask_times :: "bool list \<Rightarrow> int list \<Rightarrow> int list" where
  "mask_times bs col = map (\<lambda>(b, x). (if b then 1 else 0) * x) (zip bs col)"

subsection \<open>float64, for the age expression\<close>

text \<open>
  \<open>np.random.rand\<close> returns doubles of the form \<open>k / 2^53\<close> for an integer
  \<open>0 \<le> k < 2^53\<close> (a 27-bit and a 26-bit piece of the generator's output, joined and
  divided by \<open>2^53\<close>). A double that is a whole multiple of \<open>2^-53\<close> is written here as
  that multiple: the integer \<open>n\<close> stands for the double \<open>n / 2^53\<close>.

  A float64 operation returns its exact result rounded to 53 significant bits, to the
  nearest such number and to the one with an even last bit on a tie. For an integer
  scalar \<open>c\<close> and a double \<open>n / 2^53\<close> the exact product is \<open>c * n / 2^53\<close> and the exact
  sum is \<open>(c * 2^53 + n) / 2^53\<close>, both whole multiples of \<open>2^-53\<close>, so both operations
  are a rounding of an integer numerator. The exponent range of float64 plays no part for
  values between \<open>2^-53\<close> and 85.
\<close>

text \<open>\<open>n / 2^e\<close> rounded to the nearest integer, a tie to the even one.\<close>

definition round_half_even :: "int \<Rightarrow> nat \<Rightarrow> int" where
  "round_half_even n e =
     (let q = n div 2 ^ e; r = n mod 2 ^ e
      in if 2 ^ e < 2 * r \<or> (2 * r = 2 ^ e \<and> odd q) then q + 1 else q)"

text \<open>A numerator rounded to 53 significant bits.\<close>

definition float64_round :: "int \<Rightarrow> int" where
  "float64_round n =
     (let d = bitlen \<bar>n\<bar> - 53
      in if d \<le> 0 then n else round_half_even n (nat d) * 2 ^ nat d)"

text \<open>\<open>c * x\<close> and \<open>c + x\<close> for an integer scalar \<open>c\<close> and a double \<open>x = n / 2^53\<close>.\<close>

definition float64_times_int :: "int \<Rightarrow> int \<Rightarrow> int" where
  "float64_times_int c n = float64_round (c * n)"

definition float64_plus_int :: "int \<Rightarrow> int \<Rightarrow> int" where
  "float64_plus_int c n = float64_round (c * 2 ^ 53 + n)"

definition float64_value :: "int \<Rightarrow> real" where
  "float64_value n = of_int n / 2 ^ 53"

text \<open>
  \<open>np.random.rand(n)\<close>: the next \<open>n\<close> draws of the ambient generator. The generator
  is the parameter \<open>rand\<close>: \<open>rand i\<close> is the 53-bit integer \<open>k\<close> of its \<open>i\<close>-th draw,
  and the draw is the double \<open>k / 2^53\<close>.
\<close>

definition np_random_rand :: "(nat \<Rightarrow> nat) \<Rightarrow> nat \<Rightarrow> int list" where
  "np_random_rand rand n = map (\<lambda>i. int (rand i)) [0..<n]"

definition np_where :: "bool list \<Rightarrow> real list \<Rightarrow> real list \<Rightarrow> real list" where
  "np_where c a b = map (\<lambda>(ci, ai, bi). if ci then ai else bi) (zip c (zip a b))"

definition stored :: "int list \<Rightarrow> real list" where
  "stored col = map of_int col"

definition div_1e2 :: "int list \<Rightarrow> real list" where
  "div_1e2 col = map (\<lambda>x. of_int x / 100) col"

subsection \<open>add\_id\_variables\<close>

text \<open>Lines 94 to 101: the Series assigned to \<open>cps["tax_unit_weight"]\<close>.\<close>

definition tax_unit_weight_series :: "h5file \<Rightarrow> (error \<times> h5file) + series" where
  "tax_unit_weight_series cps =
     andThen (h5_getitem ''family_weight'' cps) (\<lambda>fw.
     andThen (h5_getitem ''family_id'' cps) (\<lambda>fid.
     andThen (raise_in cps (Series fw fid)) (\<lambda>family_weight.
     andThen (h5_getitem ''person_family_id'' cps) (\<lambda>person_family_id.
     andThen (raise_in cps (series_getitem family_weight person_family_id))
       (\<lambda>persons_family_weight.
     andThen (h5_getitem ''person_tax_unit_id'' cps) (\<lambda>person_tax_unit_id.
     raise_in cps (groupby_first persons_family_weight person_tax_unit_id)))))))"

definition add_id_variables ::
  "h5file \<Rightarrow> person_row list \<Rightarrow> tax_unit_row list \<Rightarrow> family_row list \<Rightarrow>
   spm_unit_row list \<Rightarrow> household_row list \<Rightarrow> outcome" where
  "add_id_variables cps person tax_unit family spm_unit household =
     andThen (h5_setitem ''person_id''
        (stored (map (\<lambda>r. PH_SEQ r * 100 + P_SEQ r) person)) cps) (\<lambda>cps.
     andThen (h5_setitem ''family_id''
        (stored (map (\<lambda>r. FH_SEQ r * 10 + FFPOS r) family)) cps) (\<lambda>cps.
     andThen (h5_setitem ''household_id'' (stored (map H_SEQ household)) cps) (\<lambda>cps.
     andThen (h5_setitem ''person_tax_unit_id'' (stored (map TAX_ID person)) cps) (\<lambda>cps.
     andThen (h5_setitem ''person_spm_unit_id'' (stored (map SPM_ID person)) cps) (\<lambda>cps.
     andThen (h5_setitem ''tax_unit_id'' (stored (map tu_TAX_ID tax_unit)) cps) (\<lambda>cps.
     andThen (h5_setitem ''spm_unit_id'' (stored (map su_SPM_ID spm_unit)) cps) (\<lambda>cps.
     andThen (h5_setitem ''person_household_id'' (stored (map PH_SEQ person)) cps) (\<lambda>cps.
     andThen (h5_setitem ''person_family_id''
        (stored (map (\<lambda>r. PH_SEQ r * 10 + PF_SEQ r) person)) cps) (\<lambda>cps.
     andThen (h5_setitem ''person_weight'' (div_1e2 (map A_FNLWGT person)) cps) (\<lambda>cps.
     andThen (h5_setitem ''family_weight'' (div_1e2 (map FSUP_WGT family)) cps) (\<lambda>cps.
     andThen (tax_unit_weight_series cps) (\<lambda>tuw.
     andThen (h5_setitem ''tax_unit_weight'' (map snd tuw) cps) (\<lambda>cps.
     andThen (h5_setitem ''spm_unit_weight'' (div_1e2 (map SPM_WEIGHT spm_unit)) cps) (\<lambda>cps.
     h5_setitem ''household_weight'' (div_1e2 (map HSUP_WGT household)) cps))))))))))))))"

subsection \<open>add\_personal\_variables\<close>

text \<open>
  The second argument of \<open>np.where\<close> is \<open>80 + 5 * np.random.rand(len(person))\<close>, computed
  for every row in float64; the third is the age column, whose integers are doubles as
  they are.
\<close>

definition add_personal_variables ::
  "h5file \<Rightarrow> person_row list \<Rightarrow> (nat \<Rightarrow> nat) \<Rightarrow> outcome" where
  "add_personal_variables cps person rand =
     h5_setitem ''age''
       (np_where (between 80 85 (map A_AGE person))
          (map (\<lambda>u. float64_value (float64_plus_int 80 (float64_times_int 5 u)))
             (np_random_rand rand (length person)))
          (stored (map A_AGE person))) cps"

subsection \<open>add\_personal\_income\_variables\<close>

definition add_personal_income_variables :: "h5file \<Rightarrow> person_row list \<Rightarrow> outcome" where
  "add_personal_income_variables cps person =
     andThen (h5_setitem ''employment_income'' (stored (map WSAL_VAL person)) cps) (\<lambda>cps.
     andThen (h5_setitem ''self_employment_income'' (stored (map SEMP_VAL person)) cps) (\<lambda>cps.
     andThen (h5_setitem ''e02100'' (stored (map FRSE_VAL person)) cps) (\<lambda>cps.
     andThen (h5_setitem ''social_security'' (stored (map SS_VAL person)) cps) (\<lambda>cps.
     andThen (h5_setitem ''e02300'' (stored (map UC_VAL person)) cps) (\<lambda>cps.
     andThen (h5_setitem ''e01500''
        (stored (mask_times (isin [2, 13] (map OI_OFF person)) (map OI_VAL person))) cps) (\<lambda>cps.
     h5_setitem ''e00800''
        (stored (mask_times (map (\<lambda>x. x = 20) (map OI_OFF person)) (map OI_VAL person)))
        cps))))))"

subsection \<open>add\_spm\_variables\<close>

definition SPM_RENAMES :: "(string \<times> string) list" where
  "SPM_RENAMES =
     [(''spm_unit_total_income'', ''SPM_TOTVAL''),
      (''snap'', ''SPM_SNAPSUB''),
      (''spm_unit_capped_housing_subsidy'', ''SPM_CAPHOUSESUB''),
      (''free_school_meals'', ''SPM_SCHLUNCH''),
      (''spm_unit_energy_subsidy'', ''SPM_ENGVAL''),
      (''spm_unit_wic'', ''SPM_WICVAL''),
      (''spm_unit_fica'', ''SPM_FICA''),
      (''spm_unit_federal_tax'', ''SPM_FEDTAX''),
      (''spm_unit_state_tax'', ''SPM_STTAX''),
      (''spm_unit_work_childcare_expenses'', ''SPM_CAPWKCCXPNS''),
      (''spm_unit_medical_expenses'', ''SPM_MEDXPNS''),
      (''spm_unit_spm_threshold'', ''SPM_POVTHRESHOLD''),
      (''spm_unit_net_income_reported'', ''SPM_RESOURCES'')]"

text \<open>The columns of the SPM-unit frame by name, for \<open>spm_unit[asec_variable]\<close>.\<close>

definition spm_unit_columns :: "(string \<times> (spm_unit_row \<Rightarrow> int)) list" where
  "spm_unit_columns =
     [(''SPM_ID'', su_SPM_ID),
      (''SPM_WEIGHT'', SPM_WEIGHT),
      (''SPM_TOTVAL'', SPM_TOTVAL),
      (''SPM_SNAPSUB'', SPM_SNAPSUB),
      (''SPM_CAPHOUSESUB'', SPM_CAPHOUSESUB),
      (''SPM_SCHLUNCH'', SPM_SCHLUNCH),
      (''SPM_ENGVAL'', SPM_ENGVAL),
      (''SPM_WICVAL'', SPM_WICVAL),
      (''SPM_FICA'', SPM_FICA),
      (''SPM_FEDTAX'', SPM_FEDTAX),
      (''SPM_STTAX'', SPM_STTAX),
      (''SPM_CAPWKCCXPNS'', SPM_CAPWKCCXPNS),
      (''SPM_MEDXPNS'', SPM_MEDXPNS),
      (''SPM_POVTHRESHOLD'', SPM_POVTHRESHOLD),
      (''SPM_RESOURCES'', SPM_RESOURCES)]"

definition spm_unit_getitem :: "spm_unit_row list \<Rightarrow> string \<Rightarrow> error + int list" where
  "spm_unit_getitem spm_unit name =
     (case map_of spm_unit_columns name of
        None \<Rightarrow> Inl KeyError
      | Some field \<Rightarrow> Inr (map field spm_unit))"

text \<open>The loop over \<open>SPM_RENAMES.items()\<close>, in the table's order.\<close>

fun copy_renames :: "(string \<times> string) list \<Rightarrow> spm_unit_row list \<Rightarrow> h5file \<Rightarrow> outcome" where
  "copy_renames [] spm_unit cps = Inr cps"
| "copy_renames ((openfisca_variable, asec_variable) # rest) spm_unit cps =
     andThen (raise_in cps (spm_unit_getitem spm_unit asec_variable)) (\<lambda>col.
     andThen (h5_setitem openfisca_variable (stored col) cps) (\<lambda>cps.
     copy_renames rest spm_unit cps))"

definition add_spm_variables :: "h5file \<Rightarrow> spm_unit_row list \<Rightarrow> outcome" where
  "add_spm_variables cps spm_unit =
     andThen (copy_renames SPM_RENAMES spm_unit cps) (\<lambda>cps.
     andThen (h5_getitem ''free_school_meals'' cps) (\<lambda>free_school_meals.
     h5_setitem ''reduced_price_school_meals'' (map (\<lambda>x. x * 0) free_school_meals) cps))"

subsection \<open>add\_household\_variables\<close>

definition add_household_variables :: "h5file \<Rightarrow> household_row list \<Rightarrow> outcome" where
  "add_household_variables cps household =
     h5_setitem ''fips'' (stored (map GESTFIPS household)) cps"

subsection \<open>CPS.generate\<close>

text \<open>
  The raw-data collaborator \<open>RawCPS\<close> is not part of this module. Its store is a map
  from year to the five tables; \<open>RawCPS.years\<close> is the domain of the map,
  \<open>RawCPS.load\<close> reads the map and \<open>RawCPS.generate\<close> is a parameter.

  The state of a run records what happened to the two handles and the file at
  \<open>self.file(year)\<close>, which \<open>h5py.File(..., mode="w")\<close> creates empty. A handle is
  \<open>Closed\<close> only when \<open>close()\<close> was called on it.
\<close>

type_synonym raw_store = "int \<rightharpoonup> raw_data"

datatype handle = NotOpened | Opened | Closed

record run_state =
  raw_data_handle :: handle
  cps_handle :: handle
  cps_file :: "h5file option"

definition RawCPS_load :: "int \<Rightarrow> raw_store \<Rightarrow> error + raw_data" where
  "RawCPS_load year store =
     (case store year of None \<Rightarrow> Inl RawCPSError | Some raw \<Rightarrow> Inr raw)"

text \<open>Lines 47 to 51: the five passes, each on the file the one before left.\<close>

definition run_passes :: "raw_data \<Rightarrow> (nat \<Rightarrow> nat) \<Rightarrow> h5file \<Rightarrow> outcome" where
  "run_passes raw rand cps =
     andThen (add_id_variables cps (person_table raw) (tax_unit_table raw)
                (family_table raw) (spm_unit_table raw) (household_table raw)) (\<lambda>cps.
     andThen (add_personal_variables cps (person_table raw) rand) (\<lambda>cps.
     andThen (add_personal_income_variables cps (person_table raw)) (\<lambda>cps.
     andThen (add_spm_variables cps (spm_unit_table raw)) (\<lambda>cps.
     add_household_variables cps (household_table raw)))))"

definition generate ::
  "(int \<Rightarrow> raw_store \<Rightarrow> error + raw_store) \<Rightarrow> (nat \<Rightarrow> nat) \<Rightarrow> raw_store \<Rightarrow> int \<Rightarrow>
   error option \<times> run_state" where
  "generate RawCPS_generate rand store year =
     (case (if store year = None then RawCPS_generate year store else Inr store) of
        Inl e \<Rightarrow>
          (Some e, \<lparr>raw_data_handle = NotOpened, cps_handle = NotOpened, cps_file = None\<rparr>)
      | Inr store \<Rightarrow>
          (case RawCPS_load year store of
             Inl e \<Rightarrow>
               (Some e, \<lparr>raw_data_handle = NotOpened, cps_handle = NotOpened, cps_file = None\<rparr>)
           | Inr raw \<Rightarrow>
               (case run_passes raw rand Map.empty of
                  Inl (e, cps) \<Rightarrow>
                    (Some e, \<lparr>raw_data_handle = Opened, cps_handle = Opened, cps_file = Some cps\<rparr>)
                | Inr cps \<Rightarrow>
                    (None, \<lparr>raw_data_handle = Closed, cps_handle = Closed, cps_file = Some cps\<rparr>))))"

subsection \<open>The columns of each entity level\<close>

text \<open>The names \<open>add_id_variables\<close> assigns, in the order of its assignments.\<close>

definition id_variable_names :: "string list" where
  "id_variable_names =
     [''person_id'', ''family_id'', ''household_id'', ''person_tax_unit_id'',
      ''person_spm_unit_id'', ''tax_unit_id'', ''spm_unit_id'', ''person_household_id'',
      ''person_family_id'', ''person_weight'', ''family_weight'', ''tax_unit_weight'',
      ''spm_unit_weight'', ''household_weight'']"

text \<open>Every name the five passes assign, by the raw table its column is computed from.\<close>

definition person_columns :: "string list" where
  "person_columns =
     [''person_id'', ''person_tax_unit_id'', ''person_spm_unit_id'', ''person_household_id'',
      ''person_family_id'', ''person_weight'', ''age'', ''employment_income'',
      ''self_employment_income'', ''e02100'', ''social_security'', ''e02300'', ''e01500'',
      ''e00800'']"

definition family_columns :: "string list" where
  "family_columns = [''family_id'', ''family_weight'']"

definition spm_unit_columns_out :: "string list" where
  "spm_unit_columns_out =
     [''spm_unit_id'', ''spm_unit_weight'', ''reduced_price_school_meals''] @ map fst SPM_RENAMES"

definition household_columns :: "string list" where
  "household_columns = [''household_id'', ''household_weight'', ''fips'']"

subsection \<open>A small survey year\<close>

text \<open>
  Three persons in two families, two tax units, one SPM unit and one household. The first
  two persons form tax unit 2 and belong to different families, of weights 2.5 and 1.5.
\<close>

definition fx_person :: "person_row list" where
  "fx_person =
     [\<lparr>PH_SEQ = 1, P_SEQ = 1, PF_SEQ = 1, TAX_ID = 2, SPM_ID = 1, A_FNLWGT = 120, A_AGE = 85,
       WSAL_VAL = 1000, SEMP_VAL = 0, FRSE_VAL = 0, SS_VAL = 0, UC_VAL = 0,
       OI_OFF = 2, OI_VAL = 500\<rparr>,
      \<lparr>PH_SEQ = 1, P_SEQ = 2, PF_SEQ = 2, TAX_ID = 2, SPM_ID = 1, A_FNLWGT = 130, A_AGE = 79,
       WSAL_VAL = 0, SEMP_VAL = 200, FRSE_VAL = 0, SS_VAL = 0, UC_VAL = 0,
       OI_OFF = 20, OI_VAL = 300\<rparr>,
      \<lparr>PH_SEQ = 1, P_SEQ = 3, PF_SEQ = 2, TAX_ID = 1, SPM_ID = 1, A_FNLWGT = 140, A_AGE = 40,
       WSAL_VAL = 0, SEMP_VAL = 0, FRSE_VAL = 0, SS_VAL = 0, UC_VAL = 50,
       OI_OFF = 7, OI_VAL = 100\<rparr>]"

definition fx_family :: "family_row list" where
  "fx_family =
     [\<lparr>FH_SEQ = 1, FFPOS = 1, FSUP_WGT = 250\<rparr>,
      \<lparr>FH_SEQ = 1, FFPOS = 2, FSUP_WGT = 150\<rparr>]"

text \<open>The tax-unit table once in the order its units first appear among the persons, once
  in ascending order of id.\<close>

definition fx_tax_unit :: "tax_unit_row list" where
  "fx_tax_unit = [\<lparr>tu_TAX_ID = 2\<rparr>, \<lparr>tu_TAX_ID = 1\<rparr>]"

definition fx_tax_unit_ascending :: "tax_unit_row list" where
  "fx_tax_unit_ascending = [\<lparr>tu_TAX_ID = 1\<rparr>, \<lparr>tu_TAX_ID = 2\<rparr>]"

definition fx_spm_unit :: "spm_unit_row list" where
  "fx_spm_unit =
     [\<lparr>su_SPM_ID = 1, SPM_WEIGHT = 260, SPM_TOTVAL = 2150, SPM_SNAPSUB = 10,
       SPM_CAPHOUSESUB = 20, SPM_SCHLUNCH = 30, SPM_ENGVAL = 40, SPM_WICVAL = 50,
       SPM_FICA = 60, SPM_FEDTAX = 70, SPM_STTAX = 80, SPM_CAPWKCCXPNS = 90,
       SPM_MEDXPNS = 100, SPM_POVTHRESHOLD = 110, SPM_RESOURCES = 120\<rparr>]"

definition fx_household :: "household_row list" where
  "fx_household = [\<lparr>H_SEQ = 1, HSUP_WGT = 270, GESTFIPS = 6\<rparr>]"

text \<open>A generator whose every draw is \<open>2^52 / 2^53\<close>, one half, and one whose every draw
  is \<open>(2^53 - 1) / 2^53\<close>, the largest double below 1.\<close>

definition fx_rand :: "nat \<Rightarrow> nat" where
  "fx_rand i = 2 ^ 52"

definition fx_rand_top :: "nat \<Rightarrow> nat" where
  "fx_rand_top i = 2 ^ 53 - 1"

text \<open>What \<open>add_id_variables\<close> leaves in an empty file on these tables.\<close>

definition fx_ids :: h5file where
  "fx_ids = Map.empty
     (''person_id'' \<mapsto> [101, 102, 103],
      ''family_id'' \<mapsto> [11, 12],
      ''household_id'' \<mapsto> [1],
      ''person_tax_unit_id'' \<mapsto> [2, 2, 1],
      ''person_spm_unit_id'' \<mapsto> [1, 1, 1],
      ''tax_unit_id'' \<mapsto> [2, 1],
      ''spm_unit_id'' \<mapsto> [1],
      ''person_household_id'' \<mapsto> [1, 1, 1],
      ''person_family_id'' \<mapsto> [11, 12, 12],
      ''person_weight'' \<mapsto> [6 / 5, 13 / 10, 7 / 5],
      ''family_weight'' \<mapsto> [5 / 2, 3 / 2],
      ''tax_unit_weight'' \<mapsto> [3 / 2, 5 / 2],
      ''spm_unit_weight'' \<mapsto> [13 / 5],
      ''household_weight'' \<mapsto> [27 / 10])"

text \<open>The same year with the tax-unit table in ascending order, as one raw dataset.\<close>

definition fx_raw :: raw_data where
  "fx_raw = \<lparr>person_table = fx_person, tax_unit_table = fx_tax_unit_ascending,
     family_table = fx_family, spm_unit_table = fx_spm_unit, household_table = fx_household\<rparr>"

text \<open>A year whose only person names a family that the family table does not have, and
  the file \<open>add_id_variables\<close> has written when the lookup of that family raises.\<close>

definition fx_orphan_raw :: raw_data where
  "fx_orphan_raw = \<lparr>person_table = [hd fx_person], tax_unit_table = [\<lparr>tu_TAX_ID = 2\<rparr>],
     family_table = [], spm_unit_table = fx_spm_unit, household_table = fx_household\<rparr>"

definition fx_orphan_file :: h5file where
  "fx_orphan_file = Map.empty
     (''person_id'' \<mapsto> [101],
      ''family_id'' \<mapsto> [],
      ''household_id'' \<mapsto> [1],
      ''person_tax_unit_id'' \<mapsto> [2],
      ''person_spm_unit_id'' \<mapsto> [1],
      ''tax_unit_id'' \<mapsto> [2],
      ''spm_unit_id'' \<mapsto> [1],
      ''person_household_id'' \<mapsto> [1],
      ''person_family_id'' \<mapsto> [11],
      ''person_weight'' \<mapsto> [6 / 5],
      ''family_weight'' \<mapsto> [])"

section \<open>Properties\<close>

subsection \<open>The error plumbing and the file\<close>

lemma andThen_Inl [simp]: "andThen (Inl e) f = Inl e"
  by (simp add: andThen_def)

lemma andThen_Inr [simp]: "andThen (Inr x) f = f x"
  by (simp add: andThen_def)

lemma andThen_eq_Inr: "andThen r f = Inr y \<longleftrightarrow> (\<exists>x. r = Inr x \<and> f x = Inr y)"
  by (cases r) simp_all

lemma raise_in_eq_Inr [simp]: "raise_in cps r = Inr x \<longleftrightarrow> r = Inr x"
  by (cases r) (simp_all add: raise_in_def)

lemma raise_in_Inr [simp]: "raise_in cps (Inr x) = Inr x"
  by (simp add: raise_in_def)

lemma raise_in_Inl [simp]: "raise_in cps (Inl e) = Inl (e, cps)"
  by (simp add: raise_in_def)

lemma h5_setitem_eq_Inr:
  "h5_setitem name vals cps = Inr cps' \<longleftrightarrow> cps name = None \<and> cps' = cps(name \<mapsto> vals)"
  by (auto simp: h5_setitem_def split: option.splits)

lemma h5_setitem_fresh: "cps name = None \<Longrightarrow> h5_setitem name vals cps = Inr (cps(name \<mapsto> vals))"
  by (simp add: h5_setitem_def)

lemma h5_getitem_Some [simp]: "cps name = Some vals \<Longrightarrow> h5_getitem name cps = Inr vals"
  by (simp add: h5_getitem_def)

lemma map_le_fresh_upd: "c \<subseteq>\<^sub>m c' \<Longrightarrow> c n = None \<Longrightarrow> c \<subseteq>\<^sub>m c'(n \<mapsto> v)"
  by (auto simp: map_le_def)

lemma h5_setitem_le: "h5_setitem n v c = Inr c' \<Longrightarrow> c \<subseteq>\<^sub>m c'"
  by (auto simp: h5_setitem_eq_Inr intro: map_le_fresh_upd)

lemma map_le_column:
  "c \<subseteq>\<^sub>m c' \<Longrightarrow> \<exists>col. c n = Some col \<and> P col \<Longrightarrow> \<exists>col. c' n = Some col \<and> P col"
  by (metis domI map_le_def)

lemma map_le_Some: "c \<subseteq>\<^sub>m c' \<Longrightarrow> c n = Some v \<Longrightarrow> c' n = Some v"
  by (metis domI map_le_def)

lemma columns_lift:
  assumes "c \<subseteq>\<^sub>m c'" and "\<forall>n \<in> set ns. \<exists>col. c n = Some col \<and> P col"
  shows "\<forall>n \<in> set ns. \<exists>col. c' n = Some col \<and> P col"
  using assms by (blast intro: map_le_column)

lemma andThen_le:
  assumes "andThen r f = Inr c'" and "\<And>x. r = Inr x \<Longrightarrow> c \<subseteq>\<^sub>m x"
    and "\<And>x. r = Inr x \<Longrightarrow> f x = Inr c' \<Longrightarrow> x \<subseteq>\<^sub>m c'"
  shows "c \<subseteq>\<^sub>m c'"
  using assms by (cases r) (auto intro: map_le_trans)

subsection \<open>Label lookup and grouping\<close>

text \<open>
  What \<open>s[keys]\<close> and \<open>groupby(by).first()\<close> return when they return: the lookup
  gives, key by key, the rows that carry the key, and the grouping gives each key the
  value at the first position where the key stands.
\<close>

text \<open>
  What \<open>s[keys]\<close> and \<open>groupby(by).first()\<close> return when they return: the lookup
  gives, key by key, the rows that carry the key, and the grouping gives each key the
  value at the first position where the key stands.
\<close>

text \<open>
  What \<open>s[keys]\<close> and \<open>groupby(by).first()\<close> return when they return: the lookup
  gives, key by key, the rows that carry the key, and the grouping gives each key the
  value at the first position where the key stands.
\<close>

lemma series_getitem_Inr:
  "series_getitem s ks = Inr r \<Longrightarrow>
     r = concat (map (\<lambda>k. filter (\<lambda>row. fst row = k) s) ks) \<and>
     (\<forall>k \<in> set ks. filter (\<lambda>row. fst row = k) s \<noteq> [])"
proof (induction ks arbitrary: r)
  case Nil
  then show ?case by simp
next
  case (Cons k ks)
  then show ?case
    by (auto simp: andThen_eq_Inr split: list.splits)
qed

lemma series_getitem_total:
  "(\<forall>k \<in> set ks. filter (\<lambda>row. fst row = k) s \<noteq> []) \<Longrightarrow>
     series_getitem s ks = Inr (concat (map (\<lambda>k. filter (\<lambda>row. fst row = k) s) ks))"
  by (induction ks) (auto split: list.splits)

lemma series_getitem_subset: "series_getitem s ks = Inr r \<Longrightarrow> set r \<subseteq> set s"
  by (drule series_getitem_Inr) auto

lemma concat_nonempty_length:
  "(\<forall>k \<in> set ks. f k \<noteq> []) \<Longrightarrow> length ks \<le> length (concat (map f ks))"
proof (induction ks)
  case Nil
  then show ?case by simp
next
  case (Cons k ks)
  then have "f k \<noteq> []" and "length ks \<le> length (concat (map f ks))" by simp_all
  then show ?case by (cases "f k") simp_all
qed

lemma concat_singletons:
  "(\<forall>k \<in> set ks. f k \<noteq> []) \<Longrightarrow> length (concat (map f ks)) = length ks \<Longrightarrow>
     (\<forall>k \<in> set ks. length (f k) = 1) \<and> concat (map f ks) = map (\<lambda>k. hd (f k)) ks"
proof (induction ks)
  case Nil
  then show ?case by simp
next
  case (Cons k ks)
  from Cons.prems(1) have ne: "f k \<noteq> []" and rest: "\<forall>k \<in> set ks. f k \<noteq> []" by simp_all
  have ge: "length ks \<le> length (concat (map f ks))"
    using rest by (rule concat_nonempty_length)
  have one: "1 \<le> length (f k)" using ne by (cases "f k") simp_all
  from Cons.prems(2) have "length (f k) + length (concat (map f ks)) = Suc (length ks)" by simp
  with ge one have l1: "length (f k) = 1" and l2: "length (concat (map f ks)) = length ks"
    by linarith+
  from l1 have "f k = [hd (f k)]" by (cases "f k") simp_all
  with Cons.IH [OF rest l2] l1 show ?case by simp
qed

lemma concat_unit_length:
  "(\<forall>k \<in> set ks. length (f k) = 1) \<Longrightarrow> length (concat (map f ks)) = length ks"
  by (induction ks) simp_all

lemma groupby_first_Inr:
  "groupby_first s by = Inr t \<longleftrightarrow>
     length by = length s \<and> t = map (\<lambda>g. (g, hd (group_values by s g))) (sort (remdups by))"
  by (auto simp: groupby_first_def)

lemma first_of_group:
  assumes "length by = length vals" and "by = b1 @ g # b2" and "g \<notin> set b1"
  shows "hd (map snd (filter (\<lambda>kv. fst kv = g) (zip by vals))) = vals ! length b1"
proof -
  define v1 where "v1 = take (length b1) vals"
  define v2 where "v2 = drop (Suc (length b1)) vals"
  have len: "length b1 < length vals" using assms(1,2) by simp
  have vals: "vals = v1 @ (vals ! length b1) # v2"
    unfolding v1_def v2_def using len by (simp add: id_take_nth_drop [symmetric])
  have l1: "length b1 = length v1" unfolding v1_def using len by simp
  have none: "filter (\<lambda>kv. fst kv = g) (zip b1 v1) = []"
    using assms(3) by (auto simp: filter_empty_conv dest: set_zip_leftD)
  have "zip by vals = zip b1 v1 @ (g, vals ! length b1) # zip b2 v2"
    using assms(2) l1 by (subst vals) simp
  then show ?thesis using none by simp
qed

lemma group_values_nonempty:
  assumes "g \<in> set by" and "length by = length s"
  shows "group_values by s g \<noteq> []"
proof -
  from assms(1) obtain i where i: "i < length by" and g: "by ! i = g"
    by (auto simp: in_set_conv_nth)
  have "(by ! i, map snd s ! i) \<in> set (zip by (map snd s))"
    using i assms(2) by (auto simp: in_set_zip)
  then have "(g, map snd s ! i) \<in> set (filter (\<lambda>kv. fst kv = g) (zip by (map snd s)))"
    using g by simp
  then show ?thesis
    unfolding group_values_def by (metis empty_iff list.map_disc_iff list.set(1))
qed

lemma group_values_subset: "set (group_values by s g) \<subseteq> snd ` set s"
  by (auto simp: group_values_def dest!: set_zip_rightD)

lemma groupby_first_values:
  assumes "groupby_first s by = Inr t"
  shows "set (map snd t) \<subseteq> snd ` set s"
proof -
  from assms have len: "length by = length s"
    and t: "t = map (\<lambda>g. (g, hd (group_values by s g))) (sort (remdups by))"
    by (simp_all add: groupby_first_Inr)
  have "hd (group_values by s g) \<in> snd ` set s" if "g \<in> set by" for g
    using group_values_nonempty [OF that len] group_values_subset [of "by" s g]
    by (meson hd_in_set subsetD)
  then show ?thesis unfolding t by auto
qed

lemma sort_remdups_of_int:
  "sort (remdups (map real_of_int xs)) = map real_of_int (sort (remdups xs))"
proof (rule sorted_distinct_set_unique)
  show "sorted (map real_of_int (sort (remdups xs)))"
    by (simp add: sorted_map sorted_wrt_map)
  show "distinct (map real_of_int (sort (remdups xs)))"
    by (simp add: distinct_map inj_on_def)
qed simp_all

lemma zip_columns:
  "zip (stored (map a rows)) (div_1e2 (map b rows)) =
     map (\<lambda>r. (real_of_int (a r), real_of_int (b r) / 100)) rows"
  by (induction rows) (simp_all add: stored_def div_1e2_def)

lemma family_rows_with_label:
  "filter (\<lambda>row. fst row = real_of_int k)
     (zip (stored (map fid family)) (div_1e2 (map FSUP_WGT family))) =
   map (\<lambda>r. (real_of_int (fid r), real_of_int (FSUP_WGT r) / 100))
     (filter (\<lambda>r. fid r = k) family)"
  unfolding zip_columns by (induction family) simp_all

subsection \<open>What add\_id\_variables leaves in the file\<close>

text \<open>
  When the function completes, the file it was given has fourteen more columns. It
  completes exactly when none of the fourteen names was in the file and every person's
  \<open>person_family_id\<close> is the \<open>family_id\<close> of exactly one family row: a missing family
  makes the lookup raise KeyError, and a family id that labels several rows makes the
  looked-up Series longer than the person table, which \<open>groupby\<close> refuses.
\<close>

text \<open>
  When the function completes, the file it was given has fourteen more columns. It
  completes exactly when none of the fourteen names was in the file and every person's
  \<open>person_family_id\<close> is the \<open>family_id\<close> of exactly one family row: a missing family
  makes the lookup raise KeyError, and a family id that labels several rows makes the
  looked-up Series longer than the person table, which \<open>groupby\<close> refuses.
\<close>

text \<open>
  When the function completes, the file it was given has fourteen more columns. It
  completes exactly when none of the fourteen names was in the file and every person's
  \<open>person_family_id\<close> is the \<open>family_id\<close> of exactly one family row: a missing family
  makes the lookup raise KeyError, and a family id that labels several rows makes the
  looked-up Series longer than the person table, which \<open>groupby\<close> refuses.
\<close>

lemma add_id_variables_Inr:
  assumes "add_id_variables cps person tax_unit family spm_unit household = Inr cps'"
  shows "\<exists>pfw tuw.
    series_getitem
      (zip (stored (map (\<lambda>r. FH_SEQ r * 10 + FFPOS r) family)) (div_1e2 (map FSUP_WGT family)))
      (stored (map (\<lambda>r. PH_SEQ r * 10 + PF_SEQ r) person)) = Inr pfw \<and>
    groupby_first pfw (stored (map TAX_ID person)) = Inr tuw \<and>
    list_all (\<lambda>n. cps n = None) id_variable_names \<and>
    cps' = cps
      (''person_id'' \<mapsto> stored (map (\<lambda>r. PH_SEQ r * 100 + P_SEQ r) person),
       ''family_id'' \<mapsto> stored (map (\<lambda>r. FH_SEQ r * 10 + FFPOS r) family),
       ''household_id'' \<mapsto> stored (map H_SEQ household),
       ''person_tax_unit_id'' \<mapsto> stored (map TAX_ID person),
       ''person_spm_unit_id'' \<mapsto> stored (map SPM_ID person),
       ''tax_unit_id'' \<mapsto> stored (map tu_TAX_ID tax_unit),
       ''spm_unit_id'' \<mapsto> stored (map su_SPM_ID spm_unit),
       ''person_household_id'' \<mapsto> stored (map PH_SEQ person),
       ''person_family_id'' \<mapsto> stored (map (\<lambda>r. PH_SEQ r * 10 + PF_SEQ r) person),
       ''person_weight'' \<mapsto> div_1e2 (map A_FNLWGT person),
       ''family_weight'' \<mapsto> div_1e2 (map FSUP_WGT family),
       ''tax_unit_weight'' \<mapsto> map snd tuw,
       ''spm_unit_weight'' \<mapsto> div_1e2 (map SPM_WEIGHT spm_unit),
       ''household_weight'' \<mapsto> div_1e2 (map HSUP_WGT household))"
  using assms
  unfolding add_id_variables_def tax_unit_weight_series_def id_variable_names_def
  by (auto simp: andThen_eq_Inr h5_setitem_eq_Inr Series_def stored_def div_1e2_def)

lemma add_id_variables_le:
  assumes "add_id_variables cps person tax_unit family spm_unit household = Inr cps'"
  shows "cps \<subseteq>\<^sub>m cps'"
  using assms unfolding add_id_variables_def
  by (auto simp: andThen_eq_Inr h5_setitem_eq_Inr intro!: map_le_fresh_upd)

lemma add_id_variables_lengths:
  assumes "add_id_variables cps person tax_unit family spm_unit household = Inr cps'"
  shows "\<forall>n \<in> set [''person_id'', ''person_tax_unit_id'', ''person_spm_unit_id'',
            ''person_household_id'', ''person_family_id'', ''person_weight''].
           \<exists>col. cps' n = Some col \<and> length col = length person"
    and "\<forall>n \<in> set [''family_id'', ''family_weight''].
           \<exists>col. cps' n = Some col \<and> length col = length family"
    and "\<forall>n \<in> set [''spm_unit_id'', ''spm_unit_weight''].
           \<exists>col. cps' n = Some col \<and> length col = length spm_unit"
    and "\<forall>n \<in> set [''household_id'', ''household_weight''].
           \<exists>col. cps' n = Some col \<and> length col = length household"
  using add_id_variables_Inr [OF assms] by (auto simp: stored_def div_1e2_def)

lemma persons_family_weight_completes:
  assumes "\<forall>p \<in> set person. length (filter (\<lambda>r. fid r = pfid p) family) = 1"
  shows "\<exists>pfw. series_getitem (zip (stored (map fid family)) (div_1e2 (map FSUP_WGT family)))
           (stored (map pfid person)) = Inr pfw \<and> length pfw = length person"
proof -
  let ?s = "zip (stored (map fid family)) (div_1e2 (map FSUP_WGT family))"
  let ?ks = "stored (map pfid person)"
  let ?m = "\<lambda>k. filter (\<lambda>row. fst row = k) ?s"
  have one: "\<forall>k \<in> set ?ks. length (?m k) = 1"
  proof
    fix k
    assume "k \<in> set ?ks"
    then obtain p where "p \<in> set person" and "k = real_of_int (pfid p)"
      by (auto simp: stored_def)
    then show "length (?m k) = 1"
      using assms by (simp add: family_rows_with_label)
  qed
  then have ne: "\<forall>k \<in> set ?ks. ?m k \<noteq> []"
    by (metis length_0_conv zero_neq_one)
  have "length (concat (map ?m ?ks)) = length ?ks"
    using one by (rule concat_unit_length)
  then have "length (concat (map ?m ?ks)) = length person"
    by (simp add: stored_def)
  with series_getitem_total [OF ne] show ?thesis by blast
qed

lemma add_id_variables_completes:
  assumes fresh: "list_all (\<lambda>n. cps n = None) id_variable_names"
    and resolves: "\<forall>p \<in> set person.
      length (filter (\<lambda>r. FH_SEQ r * 10 + FFPOS r = PH_SEQ p * 10 + PF_SEQ p) family) = 1"
  shows "\<exists>cps'. add_id_variables cps person tax_unit family spm_unit household = Inr cps'"
proof -
  from persons_family_weight_completes [OF resolves] obtain pfw where
    sg: "series_getitem
      (zip (stored (map (\<lambda>r. FH_SEQ r * 10 + FFPOS r) family)) (div_1e2 (map FSUP_WGT family)))
      (stored (map (\<lambda>r. PH_SEQ r * 10 + PF_SEQ r) person)) = Inr pfw"
    and len: "length pfw = length person"
    by blast
  have gb: "groupby_first pfw (stored (map TAX_ID person)) =
      Inr (map (\<lambda>g. (g, hd (group_values (stored (map TAX_ID person)) pfw g)))
        (sort (remdups (stored (map TAX_ID person)))))"
    using len by (simp add: groupby_first_def stored_def)
  have lens: "length (div_1e2 (map FSUP_WGT family)) =
      length (stored (map (\<lambda>r. FH_SEQ r * 10 + FFPOS r) family))"
    by (simp add: stored_def div_1e2_def)
  show ?thesis
    using fresh
    unfolding add_id_variables_def tax_unit_weight_series_def id_variable_names_def
    by (simp add: h5_setitem_def h5_getitem_def Series_def lens sg gb)
qed

lemma add_id_variables_completes_only_if:
  assumes "add_id_variables cps person tax_unit family spm_unit household = Inr cps'"
  shows "list_all (\<lambda>n. cps n = None) id_variable_names \<and>
     (\<forall>p \<in> set person.
        length (filter (\<lambda>r. FH_SEQ r * 10 + FFPOS r = PH_SEQ p * 10 + PF_SEQ p) family) = 1)"
proof -
  let ?s = "zip (stored (map (\<lambda>r. FH_SEQ r * 10 + FFPOS r) family))
    (div_1e2 (map FSUP_WGT family))"
  let ?ks = "stored (map (\<lambda>r. PH_SEQ r * 10 + PF_SEQ r) person)"
  let ?m = "\<lambda>k. filter (\<lambda>row. fst row = k) ?s"
  from add_id_variables_Inr [OF assms] obtain pfw tuw where
    sg: "series_getitem ?s ?ks = Inr pfw"
    and gb: "groupby_first pfw (stored (map TAX_ID person)) = Inr tuw"
    and fresh: "list_all (\<lambda>n. cps n = None) id_variable_names"
    by auto
  from series_getitem_Inr [OF sg]
  have pfw: "pfw = concat (map ?m ?ks)" and ne: "\<forall>k \<in> set ?ks. ?m k \<noteq> []"
    by simp_all
  from gb have "length pfw = length person"
    by (simp add: groupby_first_Inr stored_def)
  then have "length (concat (map ?m ?ks)) = length ?ks"
    using pfw by (simp add: stored_def)
  from concat_singletons [OF ne this]
  have one: "\<forall>k \<in> set ?ks. length (?m k) = 1" by simp
  have "length (filter (\<lambda>r. FH_SEQ r * 10 + FFPOS r = PH_SEQ p * 10 + PF_SEQ p) family) = 1"
    if "p \<in> set person" for p
  proof -
    from that have "real_of_int (PH_SEQ p * 10 + PF_SEQ p) \<in> set ?ks"
      by (simp add: stored_def)
    with one have "length (?m (real_of_int (PH_SEQ p * 10 + PF_SEQ p))) = 1" by blast
    then show ?thesis
      unfolding family_rows_with_label by simp
  qed
  with fresh show ?thesis by blast
qed

lemma first_member_family_weight:
  assumes sg: "series_getitem (zip (stored (map fid family)) (div_1e2 (map FSUP_WGT family)))
                 (stored (map pfid person)) = Inr pfw"
    and len: "length pfw = length person"
    and split: "person = before @ p # after"
    and first: "\<forall>q \<in> set before. TAX_ID q \<noteq> TAX_ID p"
    and fam: "f \<in> set family"
    and key: "fid f = pfid p"
  shows "hd (group_values (stored (map TAX_ID person)) pfw (of_int (TAX_ID p))) =
           of_int (FSUP_WGT f) / 100"
proof -
  let ?s = "zip (stored (map fid family)) (div_1e2 (map FSUP_WGT family))"
  let ?ks = "stored (map pfid person)"
  let ?m = "\<lambda>k. filter (\<lambda>row. fst row = k) ?s"
  let ?by = "stored (map TAX_ID person)"
  let ?row = "(real_of_int (fid f), real_of_int (FSUP_WGT f) / 100)"
  from series_getitem_Inr [OF sg]
  have pfw: "pfw = concat (map ?m ?ks)" and ne: "\<forall>k \<in> set ?ks. ?m k \<noteq> []"
    by simp_all
  have "length (concat (map ?m ?ks)) = length ?ks"
    using len pfw by (simp add: stored_def)
  from concat_singletons [OF ne this]
  have one: "\<forall>k \<in> set ?ks. length (?m k) = 1" and rows: "pfw = map (\<lambda>k. hd (?m k)) ?ks"
    using pfw by simp_all
  have pk: "real_of_int (pfid p) \<in> set ?ks"
    using split by (simp add: stored_def)
  with one have "length (?m (real_of_int (pfid p))) = 1" by blast
  then obtain row where row: "?m (real_of_int (pfid p)) = [row]"
    by (cases "?m (real_of_int (pfid p))") simp_all
  have "?row \<in> set ?s"
    using fam by (auto simp: zip_columns)
  then have "?row \<in> set (?m (real_of_int (pfid p)))"
    using key by simp
  with row have "row = ?row" by simp
  with row have hdrow: "hd (?m (real_of_int (pfid p))) = ?row" by simp
  have nth: "pfw ! length before = ?row"
    using rows split hdrow by (simp add: stored_def nth_append)
  have by_split: "?by = stored (map TAX_ID before) @ real_of_int (TAX_ID p) # stored (map TAX_ID after)"
    using split by (simp add: stored_def)
  have notin: "real_of_int (TAX_ID p) \<notin> set (stored (map TAX_ID before))"
    using first by (auto simp: stored_def)
  have "hd (map snd (filter (\<lambda>kv. fst kv = real_of_int (TAX_ID p)) (zip ?by (map snd pfw)))) =
          map snd pfw ! length (stored (map TAX_ID before))"
    by (rule first_of_group [OF _ by_split notin]) (simp add: len stored_def)
  also have "\<dots> = snd (pfw ! length before)"
    using len split by (simp add: stored_def)
  finally show ?thesis
    using nth by (simp add: group_values_def)
qed

lemma tax_unit_weight_lookup:
  assumes run: "add_id_variables cps person tax_unit family spm_unit household = Inr cps'"
    and split: "person = before @ p # after"
    and first: "\<forall>q \<in> set before. TAX_ID q \<noteq> TAX_ID p"
    and fam: "f \<in> set family"
    and key: "FH_SEQ f * 10 + FFPOS f = PH_SEQ p * 10 + PF_SEQ p"
  shows "\<exists>ws. cps' ''tax_unit_weight'' = Some ws \<and>
           length ws = length (sort (remdups (map TAX_ID person))) \<and>
           map_of (zip (sort (remdups (map TAX_ID person))) ws) (TAX_ID p) =
             Some (of_int (FSUP_WGT f) / 100)"
proof -
  let ?ids = "sort (remdups (map TAX_ID person))"
  let ?by = "stored (map TAX_ID person)"
  from add_id_variables_Inr [OF run] obtain pfw tuw where
    sg: "series_getitem
      (zip (stored (map (\<lambda>r. FH_SEQ r * 10 + FFPOS r) family)) (div_1e2 (map FSUP_WGT family)))
      (stored (map (\<lambda>r. PH_SEQ r * 10 + PF_SEQ r) person)) = Inr pfw"
    and gb: "groupby_first pfw ?by = Inr tuw"
    and ws: "cps' ''tax_unit_weight'' = Some (map snd tuw)"
    by auto
  from gb have len: "length pfw = length person"
    and tuw: "tuw = map (\<lambda>g. (g, hd (group_values ?by pfw g))) (sort (remdups ?by))"
    by (simp_all add: groupby_first_Inr stored_def)
  let ?w = "\<lambda>g. hd (group_values ?by pfw (real_of_int g))"
  have keys: "sort (remdups ?by) = map real_of_int ?ids"
    unfolding stored_def by (rule sort_remdups_of_int)
  have vals: "map snd tuw = map ?w ?ids"
    unfolding tuw keys by (simp add: comp_def)
  have mem: "TAX_ID p \<in> set ?ids" using split by simp
  have "map_of (zip ?ids (map snd tuw)) (TAX_ID p) = Some (?w (TAX_ID p))"
    unfolding vals using mem by (simp add: map_of_zip_map)
  also have "?w (TAX_ID p) = of_int (FSUP_WGT f) / 100"
    by (rule first_member_family_weight [OF sg len split first fam key])
  finally show ?thesis using ws vals by simp
qed

lemma tax_unit_weight_values:
  assumes "add_id_variables cps person tax_unit family spm_unit household = Inr cps'"
  shows "\<exists>ws. cps' ''tax_unit_weight'' = Some ws \<and>
           set ws \<subseteq> (\<lambda>f. of_int (FSUP_WGT f) / 100) ` set family"
proof -
  from add_id_variables_Inr [OF assms] obtain pfw tuw where
    sg: "series_getitem
      (zip (stored (map (\<lambda>r. FH_SEQ r * 10 + FFPOS r) family)) (div_1e2 (map FSUP_WGT family)))
      (stored (map (\<lambda>r. PH_SEQ r * 10 + PF_SEQ r) person)) = Inr pfw"
    and gb: "groupby_first pfw (stored (map TAX_ID person)) = Inr tuw"
    and ws: "cps' ''tax_unit_weight'' = Some (map snd tuw)"
    by auto
  have "set (map snd tuw) \<subseteq> snd ` set pfw"
    using gb by (rule groupby_first_values)
  also have "\<dots> \<subseteq> snd ` set (zip (stored (map (\<lambda>r. FH_SEQ r * 10 + FFPOS r) family))
      (div_1e2 (map FSUP_WGT family)))"
    using series_getitem_subset [OF sg] by blast
  also have "\<dots> \<subseteq> (\<lambda>f. of_int (FSUP_WGT f) / 100) ` set family"
    by (auto simp: zip_columns)
  finally show ?thesis using ws by blast
qed

lemma tax_unit_columns_aligned:
  assumes r1: "add_id_variables cps person tax_unit family spm_unit household = Inr c1"
    and asc: "sorted_wrt (<) (map tu_TAX_ID tax_unit)"
    and same: "set (map tu_TAX_ID tax_unit) = set (map TAX_ID person)"
  shows "\<exists>tw. c1 ''tax_unit_id'' = Some (map (\<lambda>r. of_int (tu_TAX_ID r)) tax_unit) \<and>
           c1 ''tax_unit_weight'' = Some tw \<and> length tw = length tax_unit \<and>
           (\<forall>i before p after f.
              i < length tax_unit \<and> tu_TAX_ID (tax_unit ! i) = TAX_ID p \<and>
              person = before @ p # after \<and> (\<forall>q \<in> set before. TAX_ID q \<noteq> TAX_ID p) \<and>
              f \<in> set family \<and> FH_SEQ f * 10 + FFPOS f = PH_SEQ p * 10 + PF_SEQ p
              \<longrightarrow> tw ! i = of_int (FSUP_WGT f) / 100)"
proof -
  let ?ids = "sort (remdups (map TAX_ID person))"
  have ids: "map tu_TAX_ID tax_unit = ?ids"
    using asc same by (intro sorted_distinct_set_unique) (simp_all add: strict_sorted_iff)
  have tid: "c1 ''tax_unit_id'' = Some (map (\<lambda>r. of_int (tu_TAX_ID r)) tax_unit)"
    using add_id_variables_Inr [OF r1] by (auto simp: stored_def)
  from tax_unit_weight_values [OF r1] obtain tw where tw: "c1 ''tax_unit_weight'' = Some tw"
    by blast
  from add_id_variables_Inr [OF r1] obtain pfw tuw where
    gb: "groupby_first pfw (stored (map TAX_ID person)) = Inr tuw"
    and tw': "c1 ''tax_unit_weight'' = Some (map snd tuw)"
    by auto
  have "length tuw = length (sort (remdups (stored (map TAX_ID person))))"
    using gb by (simp add: groupby_first_Inr)
  also have "\<dots> = length ?ids"
    unfolding stored_def sort_remdups_of_int by simp
  finally have len: "length tw = length tax_unit"
    using tw tw' ids by (metis length_map option.inject)
  have lenids: "length ?ids = length tax_unit"
    using ids by (metis length_map)
  have entry: "tw ! i = of_int (FSUP_WGT f) / 100"
    if i: "i < length tax_unit" and at: "tu_TAX_ID (tax_unit ! i) = TAX_ID p"
      and split: "person = before @ p # after"
      and first: "\<forall>q \<in> set before. TAX_ID q \<noteq> TAX_ID p"
      and fam: "f \<in> set family"
      and key: "FH_SEQ f * 10 + FFPOS f = PH_SEQ p * 10 + PF_SEQ p"
    for i before p after f
  proof -
    from tax_unit_weight_lookup [OF r1 split first fam key] tw
    have look: "map_of (zip ?ids tw) (TAX_ID p) = Some (of_int (FSUP_WGT f) / 100)"
      by auto
    have nth: "?ids ! i = TAX_ID p"
      using ids i at by (metis nth_map)
    have "map_of (zip ?ids tw) (?ids ! i) = Some (tw ! i)"
      using len lenids i by (intro map_of_zip_nth) simp_all
    with look nth show ?thesis by simp
  qed
  show ?thesis
    using tid tw len entry by blast
qed

lemma fx_add_id_variables:
  "add_id_variables Map.empty fx_person fx_tax_unit fx_family fx_spm_unit fx_household =
     Inr fx_ids"
  by (simp add: add_id_variables_def tax_unit_weight_series_def h5_setitem_def h5_getitem_def
      Series_def groupby_first_def group_values_def stored_def div_1e2_def
      fx_person_def fx_family_def fx_tax_unit_def fx_spm_unit_def fx_household_def fx_ids_def)

subsection \<open>Tax-unit weights\<close>

text \<open>
  Claim C1 as stated fails where the tax-unit table is not in ascending order of id. In
  the small survey year the table lists unit 2 first. Read against the stored
  \<open>tax_unit_id\<close>, the stored \<open>tax_unit_weight\<close> gives unit 2 the weight 1.5, while the
  first person of unit 2 is in family 11, of weight 2.5.
\<close>

theorem tax_unit_weight_first_member_counterexample:
  "add_id_variables Map.empty fx_person fx_tax_unit fx_family fx_spm_unit fx_household =
     Inr fx_ids \<and>
   map_of (zip (the (fx_ids ''tax_unit_id'')) (the (fx_ids ''tax_unit_weight''))) 2 =
     Some (3 / 2) \<and>
   TAX_ID (fx_person ! 0) = 2 \<and>
   PH_SEQ (fx_person ! 0) * 10 + PF_SEQ (fx_person ! 0) =
     FH_SEQ (fx_family ! 0) * 10 + FFPOS (fx_family ! 0) \<and>
   real_of_int (FSUP_WGT (fx_family ! 0)) / 100 = 5 / 2"
  using fx_add_id_variables
  by (simp add: fx_ids_def fx_person_def fx_family_def)

text \<open>
  Claim C1, amended. Take a file that has none of the fourteen names, tables in which
  every person's \<open>person_family_id\<close> is the \<open>family_id\<close> of exactly one family row, and
  a tax-unit table that lists, in strictly ascending order, exactly the ids that occur as
  \<open>TAX_ID\<close> in the person table. Then \<open>add_id_variables\<close> completes, \<open>tax_unit_id\<close>
  and \<open>tax_unit_weight\<close> have one entry per row of the tax-unit table, and the weight
  at the position of a tax unit is \<open>FSUP_WGT / 100\<close> of the family of the first person
  row with that unit's \<open>TAX_ID\<close>, whatever the families of the unit's later members
  are.
\<close>

theorem tax_unit_weight_first_member:
  assumes "list_all (\<lambda>n. cps n = None) id_variable_names"
    and "\<forall>p \<in> set person.
      length (filter (\<lambda>r. FH_SEQ r * 10 + FFPOS r = PH_SEQ p * 10 + PF_SEQ p) family) = 1"
    and "sorted_wrt (<) (map tu_TAX_ID tax_unit)"
    and "set (map tu_TAX_ID tax_unit) = set (map TAX_ID person)"
  shows "\<exists>cps' tw.
     add_id_variables cps person tax_unit family spm_unit household = Inr cps' \<and>
     cps' ''tax_unit_id'' = Some (map (\<lambda>r. of_int (tu_TAX_ID r)) tax_unit) \<and>
     cps' ''tax_unit_weight'' = Some tw \<and> length tw = length tax_unit \<and>
     (\<forall>i before p after f.
        i < length tax_unit \<and> tu_TAX_ID (tax_unit ! i) = TAX_ID p \<and>
        person = before @ p # after \<and> (\<forall>q \<in> set before. TAX_ID q \<noteq> TAX_ID p) \<and>
        f \<in> set family \<and> FH_SEQ f * 10 + FFPOS f = PH_SEQ p * 10 + PF_SEQ p
        \<longrightarrow> tw ! i = of_int (FSUP_WGT f) / 100)"
proof -
  from add_id_variables_completes [OF assms(1,2)] obtain cps' where
    run: "add_id_variables cps person tax_unit family spm_unit household = Inr cps'"
    by blast
  from tax_unit_columns_aligned [OF run assms(3,4)] run show ?thesis
    by blast
qed

text \<open>
  In the small survey year, with the tax-unit table in ascending order, the first two
  persons share tax unit 2 and sit in families of weights 2.5 and 1.5; the unit gets
  2.5, and unit 1 gets 1.5.
\<close>

theorem tax_unit_weight_first_member_witness:
  "\<exists>cps' tw.
     add_id_variables Map.empty fx_person fx_tax_unit_ascending fx_family fx_spm_unit
       fx_household = Inr cps' \<and>
     cps' ''tax_unit_id'' = Some [1, 2] \<and> cps' ''tax_unit_weight'' = Some tw \<and>
     length tw = 2 \<and>
     map TAX_ID fx_person = [2, 2, 1] \<and>
     map (\<lambda>p. PH_SEQ p * 10 + PF_SEQ p) fx_person = [11, 12, 12] \<and>
     map (\<lambda>f. (FH_SEQ f * 10 + FFPOS f, FSUP_WGT f)) fx_family = [(11, 250), (12, 150)] \<and>
     tw ! 0 = 150 / 100 \<and> tw ! 1 = 250 / 100"
proof -
  have fresh: "list_all (\<lambda>n. Map.empty n = (None :: real list option)) id_variable_names"
    by (simp add: id_variable_names_def)
  have resolves: "\<forall>p \<in> set fx_person.
      length (filter (\<lambda>r. FH_SEQ r * 10 + FFPOS r = PH_SEQ p * 10 + PF_SEQ p) fx_family) = 1"
    by (simp add: fx_person_def fx_family_def)
  have asc: "sorted_wrt (<) (map tu_TAX_ID fx_tax_unit_ascending)"
    by (simp add: fx_tax_unit_ascending_def)
  have same: "set (map tu_TAX_ID fx_tax_unit_ascending) = set (map TAX_ID fx_person)"
    by (auto simp: fx_tax_unit_ascending_def fx_person_def)
  from tax_unit_weight_first_member [OF fresh resolves asc same, of fx_spm_unit fx_household]
  obtain cps' tw where
    run: "add_id_variables Map.empty fx_person fx_tax_unit_ascending fx_family fx_spm_unit
       fx_household = Inr cps'"
    and tid: "cps' ''tax_unit_id'' = Some (map (\<lambda>r. of_int (tu_TAX_ID r)) fx_tax_unit_ascending)"
    and tw: "cps' ''tax_unit_weight'' = Some tw"
    and len: "length tw = length fx_tax_unit_ascending"
    and entry: "\<And>i before p after f.
        i < length fx_tax_unit_ascending \<Longrightarrow>
        tu_TAX_ID (fx_tax_unit_ascending ! i) = TAX_ID p \<Longrightarrow>
        fx_person = before @ p # after \<Longrightarrow>
        (\<forall>q \<in> set before. TAX_ID q \<noteq> TAX_ID p) \<Longrightarrow>
        f \<in> set fx_family \<Longrightarrow>
        FH_SEQ f * 10 + FFPOS f = PH_SEQ p * 10 + PF_SEQ p \<Longrightarrow>
        tw ! i = of_int (FSUP_WGT f) / 100"
    by blast
  have tid': "cps' ''tax_unit_id'' = Some [1, 2]"
    unfolding tid by (simp add: fx_tax_unit_ascending_def)
  have len': "length tw = 2"
    unfolding len by (simp add: fx_tax_unit_ascending_def)
  have "tw ! 0 = of_int (FSUP_WGT (fx_family ! 1)) / 100"
    by (rule entry [of 0 "fx_person ! 2" "take 2 fx_person" "[]"])
      (simp_all add: fx_tax_unit_ascending_def fx_person_def fx_family_def)
  then have w0: "tw ! 0 = 150 / 100" by (simp add: fx_family_def)
  have "tw ! 1 = of_int (FSUP_WGT (fx_family ! 0)) / 100"
    by (rule entry [of 1 "fx_person ! 0" "[]" "tl fx_person"])
      (simp_all add: fx_tax_unit_ascending_def fx_person_def fx_family_def)
  then have w1: "tw ! 1 = 250 / 100" by (simp add: fx_family_def)
  have rows: "map TAX_ID fx_person = [2, 2, 1]"
    "map (\<lambda>p. PH_SEQ p * 10 + PF_SEQ p) fx_person = [11, 12, 12]"
    "map (\<lambda>f. (FH_SEQ f * 10 + FFPOS f, FSUP_WGT f)) fx_family = [(11, 250), (12, 150)]"
    by (simp_all add: fx_person_def fx_family_def)
  from run tid' tw len' w0 w1 rows show ?thesis
    by (intro exI [of _ cps'] exI [of _ tw]) simp
qed

subsection \<open>Identifier, foreign-key and weight columns\<close>







text \<open>
  Claim C7. When \<open>add_id_variables\<close> completes on tables whose raw weight fields
  \<open>A_FNLWGT\<close>, \<open>FSUP_WGT\<close>, \<open>SPM_WEIGHT\<close> and \<open>HSUP_WGT\<close> are all non-negative, the
  five weight columns are there and every entry of each is non-negative, the derived
  tax-unit weights included.
\<close>

theorem weights_nonnegative:
  assumes "add_id_variables cps person tax_unit family spm_unit household = Inr cps'"
    and "\<forall>r \<in> set person. 0 \<le> A_FNLWGT r"
    and "\<forall>r \<in> set family. 0 \<le> FSUP_WGT r"
    and "\<forall>r \<in> set spm_unit. 0 \<le> SPM_WEIGHT r"
    and "\<forall>r \<in> set household. 0 \<le> HSUP_WGT r"
  shows "\<exists>pw fw tw sw hw.
           cps' ''person_weight'' = Some pw \<and> length pw = length person \<and>
           cps' ''family_weight'' = Some fw \<and> length fw = length family \<and>
           cps' ''tax_unit_weight'' = Some tw \<and>
           length tw = length (remdups (map TAX_ID person)) \<and>
           cps' ''spm_unit_weight'' = Some sw \<and> length sw = length spm_unit \<and>
           cps' ''household_weight'' = Some hw \<and> length hw = length household \<and>
           (\<forall>w \<in> set pw \<union> set fw \<union> set tw \<union> set sw \<union> set hw. 0 \<le> w)"
proof -
  from tax_unit_weight_values [OF assms(1)] obtain tw where
    tw: "cps' ''tax_unit_weight'' = Some tw"
    and sub: "set tw \<subseteq> (\<lambda>f. of_int (FSUP_WGT f) / 100) ` set family"
    by blast
  have twpos: "\<forall>w \<in> set tw. 0 \<le> w"
    using sub assms(3) by auto
  from add_id_variables_Inr [OF assms(1)] obtain pfw tuw where
    gb: "groupby_first pfw (stored (map TAX_ID person)) = Inr tuw"
    and tw': "cps' ''tax_unit_weight'' = Some (map snd tuw)"
    by auto
  have "length tuw = length (sort (remdups (stored (map TAX_ID person))))"
    using gb by (simp add: groupby_first_Inr)
  also have "\<dots> = length (remdups (map TAX_ID person))"
    unfolding stored_def sort_remdups_of_int by simp
  finally have twlen: "length tw = length (remdups (map TAX_ID person))"
    using tw tw' by auto
  have pw: "cps' ''person_weight'' = Some (map (\<lambda>r. of_int (A_FNLWGT r) / 100) person)"
    and fw: "cps' ''family_weight'' = Some (map (\<lambda>r. of_int (FSUP_WGT r) / 100) family)"
    and sw: "cps' ''spm_unit_weight'' = Some (map (\<lambda>r. of_int (SPM_WEIGHT r) / 100) spm_unit)"
    and hw: "cps' ''household_weight'' = Some (map (\<lambda>r. of_int (HSUP_WGT r) / 100) household)"
    using add_id_variables_Inr [OF assms(1)] by (auto simp: div_1e2_def)
  show ?thesis
    using pw fw sw hw tw twlen twpos assms(2-5) by auto
qed

theorem weights_nonnegative_witness:
  "add_id_variables Map.empty fx_person fx_tax_unit fx_family fx_spm_unit fx_household =
     Inr fx_ids \<and>
   list_all (\<lambda>r. 0 \<le> A_FNLWGT r) fx_person \<and> list_all (\<lambda>r. 0 \<le> FSUP_WGT r) fx_family \<and>
   list_all (\<lambda>r. 0 \<le> SPM_WEIGHT r) fx_spm_unit \<and> list_all (\<lambda>r. 0 \<le> HSUP_WGT r) fx_household \<and>
   (\<exists>pw fw tw sw hw.
      fx_ids ''person_weight'' = Some pw \<and> fx_ids ''family_weight'' = Some fw \<and>
      fx_ids ''tax_unit_weight'' = Some tw \<and> fx_ids ''spm_unit_weight'' = Some sw \<and>
      fx_ids ''household_weight'' = Some hw \<and>
      length pw = 3 \<and> length fw = 2 \<and> length tw = 2 \<and> length sw = 1 \<and> length hw = 1 \<and>
      list_all (\<lambda>w. 0 \<le> w) (pw @ fw @ tw @ sw @ hw))"
proof -
  have p: "\<forall>r \<in> set fx_person. 0 \<le> A_FNLWGT r" by (simp add: fx_person_def)
  have f: "\<forall>r \<in> set fx_family. 0 \<le> FSUP_WGT r" by (simp add: fx_family_def)
  have s: "\<forall>r \<in> set fx_spm_unit. 0 \<le> SPM_WEIGHT r" by (simp add: fx_spm_unit_def)
  have h: "\<forall>r \<in> set fx_household. 0 \<le> HSUP_WGT r" by (simp add: fx_household_def)
  have n: "length fx_person = 3" "length fx_family = 2" "length fx_spm_unit = 1"
    "length fx_household = 1" "length (remdups (map TAX_ID fx_person)) = 2"
    by (simp_all add: fx_person_def fx_family_def fx_spm_unit_def fx_household_def)
  from weights_nonnegative [OF fx_add_id_variables p f s h]
  obtain pw fw tw sw hw where
    "fx_ids ''person_weight'' = Some pw" "fx_ids ''family_weight'' = Some fw"
    "fx_ids ''tax_unit_weight'' = Some tw" "fx_ids ''spm_unit_weight'' = Some sw"
    "fx_ids ''household_weight'' = Some hw"
    "length pw = 3" "length fw = 2" "length tw = 2" "length sw = 1" "length hw = 1"
    "list_all (\<lambda>w. 0 \<le> w) (pw @ fw @ tw @ sw @ hw)"
    unfolding n by (auto simp: list_all_iff)
  then show ?thesis
    using p f s h fx_add_id_variables by (simp add: list_all_iff)
qed

subsection \<open>Rounding to 53 bits\<close>

text \<open>
  Rounding a non-negative numerator never leaves an interval whose ends are themselves
  doubles, and moves it by at most half a unit in the last place.
\<close>

text \<open>
  Rounding a non-negative numerator never leaves an interval whose ends are themselves
  doubles, and moves it by at most half a unit in the last place.
\<close>

lemma bitlen_eqI: "0 < w \<Longrightarrow> 2 ^ (nat w - 1) \<le> x \<Longrightarrow> x < 2 ^ nat w \<Longrightarrow> bitlen x = w"
  by (intro antisym) (simp_all add: bitlen_le_iff_power bitlen_ge_iff_power)

lemma round_half_even_cases:
  "round_half_even n e = n div 2 ^ e \<or>
   (round_half_even n e = n div 2 ^ e + 1 \<and> 0 < n mod 2 ^ e)"
proof (cases "2 ^ e < 2 * (n mod 2 ^ e) \<or> (2 * (n mod 2 ^ e) = 2 ^ e \<and> odd (n div 2 ^ e))")
  case True
  have "(0::int) < 2 ^ e" by simp
  with True have "0 < n mod 2 ^ e" by arith
  with True show ?thesis by (simp add: round_half_even_def Let_def)
next
  case False
  then have "round_half_even n e = n div 2 ^ e"
    unfolding round_half_even_def Let_def by (simp only: if_False)
  then show ?thesis ..
qed

lemma round_half_even_error: "2 * \<bar>round_half_even n e * 2 ^ e - n\<bar> \<le> 2 ^ e"
proof -
  define P :: int where "P = 2 ^ e"
  define q where "q = n div P"
  define r where "r = n mod P"
  have P0: "0 < P" unfolding P_def by simp
  have n: "n = q * P + r" unfolding q_def r_def by simp
  have r0: "0 \<le> r" and rP: "r < P"
    unfolding r_def using P0 by simp_all
  show ?thesis
  proof (cases "P < 2 * r \<or> (2 * r = P \<and> odd q)")
    case True
    then have "round_half_even n e = q + 1"
      by (simp add: round_half_even_def Let_def P_def q_def r_def)
    then have "round_half_even n e * 2 ^ e - n = P - r"
      unfolding n by (simp add: P_def algebra_simps)
    with True r0 rP show ?thesis unfolding P_def by auto
  next
    case False
    then have "round_half_even n e = q"
      by (simp add: round_half_even_def Let_def P_def q_def r_def)
    then have "round_half_even n e * 2 ^ e - n = - r"
      unfolding n by (simp add: P_def)
    with False r0 rP show ?thesis unfolding P_def by auto
  qed
qed

lemma float64_round_bounds:
  assumes A0: "0 \<le> A" and An: "A \<le> n" and nB: "n \<le> B" and B: "B < 2 ^ (53 + j)"
    and dA: "2 ^ j dvd A" and dB: "2 ^ j dvd B"
  shows "A \<le> float64_round n \<and> float64_round n \<le> B"
proof (cases "bitlen \<bar>n\<bar> - 53 \<le> 0")
  case True
  then show ?thesis using An nB by (simp add: float64_round_def)
next
  case False
  define d where "d = nat (bitlen \<bar>n\<bar> - 53)"
  define P :: int where "P = 2 ^ d"
  have n0: "0 \<le> n" using A0 An by simp
  have "n < 2 ^ nat (53 + int j)"
    using nB B by (simp add: nat_add_distrib)
  then have "bitlen \<bar>n\<bar> \<le> 53 + int j"
    using n0 by (simp add: bitlen_le_iff_power)
  then have dj: "d \<le> j" unfolding d_def by simp
  have P0: "0 < P" unfolding P_def by simp
  have "P dvd 2 ^ j" unfolding P_def using dj by (rule le_imp_power_dvd)
  then have PA: "P dvd A" and PB: "P dvd B"
    using dA dB by (auto intro: dvd_trans)
  have r: "float64_round n = round_half_even n d * P"
    using False by (simp add: float64_round_def d_def P_def Let_def)
  have low: "A \<le> (n div P) * P"
  proof -
    have "A div P \<le> n div P" using An P0 by (rule zdiv_mono1)
    then have "(A div P) * P \<le> (n div P) * P" using P0 by simp
    then show ?thesis using PA by simp
  qed
  have qn: "(n div P) * P \<le> n"
    using div_mult_mod_eq [of n P] pos_mod_sign [OF P0, of n] by linarith
  from round_half_even_cases [of n d]
  show ?thesis
  proof
    assume "round_half_even n d = n div 2 ^ d"
    then show ?thesis using r low qn nB by (simp add: P_def)
  next
    assume up: "round_half_even n d = n div 2 ^ d + 1 \<and> 0 < n mod 2 ^ d"
    then have pos: "0 < n mod P" by (simp add: P_def)
    have "n div P \<le> B div P" using nB P0 by (rule zdiv_mono1)
    moreover have "n div P \<noteq> B div P"
    proof
      assume "n div P = B div P"
      then have "B = (n div P) * P" using PB by simp
      moreover have "(n div P) * P < n"
        using div_mult_mod_eq [of n P] pos by linarith
      ultimately show False using nB by simp
    qed
    ultimately have "n div P + 1 \<le> B div P" by simp
    then have "(n div P + 1) * P \<le> (B div P) * P" using P0 by simp
    then have upB: "(n div P + 1) * P \<le> B" using PB by simp
    have "A \<le> (n div P + 1) * P" using low P0 by (simp add: distrib_right)
    with upB show ?thesis using r up by (simp add: P_def)
  qed
qed

lemma float64_round_error:
  assumes "0 \<le> n" and "n < 2 ^ (53 + j)"
  shows "2 * \<bar>float64_round n - n\<bar> \<le> 2 ^ j"
proof (cases "bitlen \<bar>n\<bar> - 53 \<le> 0")
  case True
  then show ?thesis by (simp add: float64_round_def)
next
  case False
  define d where "d = nat (bitlen \<bar>n\<bar> - 53)"
  have "n < 2 ^ nat (53 + int j)"
    using assms(2) by (simp add: nat_add_distrib)
  then have "bitlen \<bar>n\<bar> \<le> 53 + int j"
    using assms(1) by (simp add: bitlen_le_iff_power)
  then have dj: "d \<le> j" unfolding d_def by simp
  have "float64_round n = round_half_even n d * 2 ^ d"
    using False by (simp add: float64_round_def d_def Let_def)
  then have "2 * \<bar>float64_round n - n\<bar> \<le> 2 ^ d"
    using round_half_even_error [of n d] by simp
  also have "(2::int) ^ d \<le> 2 ^ j"
    using dj by (simp add: power_increasing)
  finally show ?thesis .
qed

lemma age_draw_bounds:
  assumes "k < 2 ^ 53"
  shows "80 \<le> float64_value (float64_plus_int 80 (float64_times_int 5 (int k))) \<and>
         float64_value (float64_plus_int 80 (float64_times_int 5 (int k))) \<le> 85"
proof -
  let ?y = "float64_round (5 * int k)"
  have "int k < int (2 ^ 53)" using assms by (simp only: of_nat_less_iff)
  then have k: "int k < 2 ^ 53" by simp
  have "0 \<le> ?y \<and> ?y \<le> 5 * 2 ^ 53"
    by (rule float64_round_bounds [where j = 3]) (use k in simp_all)
  then have y: "80 * 2 ^ 53 \<le> 80 * 2 ^ 53 + ?y" "80 * 2 ^ 53 + ?y \<le> 85 * 2 ^ 53"
    by simp_all
  have "80 * 2 ^ 53 \<le> float64_round (80 * 2 ^ 53 + ?y) \<and>
        float64_round (80 * 2 ^ 53 + ?y) \<le> 85 * 2 ^ 53"
    by (rule float64_round_bounds [where j = 7, OF _ y]) simp_all
  then have "real_of_int (80 * 2 ^ 53) \<le> real_of_int (float64_round (80 * 2 ^ 53 + ?y)) \<and>
        real_of_int (float64_round (80 * 2 ^ 53 + ?y)) \<le> real_of_int (85 * 2 ^ 53)"
    by (simp only: of_int_le_iff)
  then have "80 * 2 ^ 53 \<le> real_of_int (float64_round (80 * 2 ^ 53 + ?y)) \<and>
        real_of_int (float64_round (80 * 2 ^ 53 + ?y)) \<le> 85 * 2 ^ 53"
    by simp
  then show ?thesis
    by (simp add: float64_value_def float64_plus_int_def float64_times_int_def field_simps)
qed

lemma age_draw_error:
  assumes "k < 2 ^ 53"
  shows "\<bar>float64_value (float64_plus_int 80 (float64_times_int 5 (int k))) -
           (80 + 5 * (real k / 2 ^ 53))\<bar> \<le> 68 / 2 ^ 53"
proof -
  let ?y = "float64_round (5 * int k)"
  let ?z = "float64_round (80 * 2 ^ 53 + ?y)"
  have "int k < int (2 ^ 53)" using assms by (simp only: of_nat_less_iff)
  then have k: "int k < 2 ^ 53" by simp
  have yb: "0 \<le> ?y \<and> ?y \<le> 5 * 2 ^ 53"
    by (rule float64_round_bounds [where j = 3]) (use k in simp_all)
  have e1: "2 * \<bar>?y - 5 * int k\<bar> \<le> 2 ^ 3"
    by (rule float64_round_error) (use k in simp_all)
  have e2: "2 * \<bar>?z - (80 * 2 ^ 53 + ?y)\<bar> \<le> 2 ^ 7"
    by (rule float64_round_error) (use yb in simp_all)
  from e1 e2 have "\<bar>?z - (80 * 2 ^ 53 + 5 * int k)\<bar> \<le> 68"
    by simp
  then have "real_of_int \<bar>?z - (80 * 2 ^ 53 + 5 * int k)\<bar> \<le> real_of_int 68"
    by (simp only: of_int_le_iff)
  then have "\<bar>real_of_int ?z - (80 * 2 ^ 53 + 5 * real k)\<bar> \<le> 68"
    by simp
  then have "\<bar>real_of_int ?z - (80 * 2 ^ 53 + 5 * real k)\<bar> / 2 ^ 53 \<le> 68 / 2 ^ 53"
    by (simp add: divide_right_mono)
  moreover have "\<bar>x\<bar> / 2 ^ 53 = \<bar>x / 2 ^ 53\<bar>" for x :: real
    by (simp add: abs_divide)
  moreover have "(real_of_int ?z - (80 * 2 ^ 53 + 5 * real k)) / 2 ^ 53 =
      real_of_int ?z / 2 ^ 53 - (80 + 5 * (real k / 2 ^ 53))"
    by (simp add: diff_divide_distrib add_divide_distrib)
  ultimately show ?thesis
    by (simp only: float64_value_def float64_plus_int_def float64_times_int_def)
qed

lemma age_draw_half:
  "float64_value (float64_plus_int 80 (float64_times_int 5 (int (fx_rand i)))) = 165 / 2"
proof -
  have k: "int (fx_rand i) = 2 ^ 52" by (simp add: fx_rand_def)
  have b1: "bitlen \<bar>5 * 2 ^ 52\<bar> = 55"
    by (rule bitlen_eqI) simp_all
  have y: "float64_round (5 * 2 ^ 52) = 5 * 2 ^ 52"
    unfolding float64_round_def b1 by (simp add: round_half_even_def)
  have b2: "bitlen \<bar>80 * 2 ^ 53 + 5 * 2 ^ 52\<bar> = 60"
    by (rule bitlen_eqI) simp_all
  have z: "float64_round (80 * 2 ^ 53 + 5 * 2 ^ 52) = 80 * 2 ^ 53 + 5 * 2 ^ 52"
    unfolding float64_round_def b2 by (simp add: round_half_even_def)
  show ?thesis
    by (simp only: float64_value_def float64_plus_int_def float64_times_int_def k y z) simp
qed

lemma age_draw_top:
  "float64_value (float64_plus_int 80 (float64_times_int 5 (int (fx_rand_top i)))) = 85"
proof -
  have k: "int (fx_rand_top i) = 2 ^ 53 - 1" by (simp add: fx_rand_top_def)
  have b1: "bitlen \<bar>5 * (2 ^ 53 - 1)\<bar> = 56"
    by (rule bitlen_eqI) simp_all
  have y: "float64_round (5 * (2 ^ 53 - 1)) = 5 * 2 ^ 53 - 8"
    unfolding float64_round_def b1 by (simp add: round_half_even_def)
  have b2: "bitlen \<bar>80 * 2 ^ 53 + (5 * 2 ^ 53 - 8)\<bar> = 60"
    by (rule bitlen_eqI) simp_all
  have z: "float64_round (80 * 2 ^ 53 + (5 * 2 ^ 53 - 8)) = 85 * 2 ^ 53"
    unfolding float64_round_def b2 by (simp add: round_half_even_def)
  show ?thesis
    by (simp only: float64_value_def float64_plus_int_def float64_times_int_def k y z) simp
qed

subsection \<open>Ages\<close>

lemma add_personal_variables_Inr:
  "add_personal_variables cps person rand = Inr cps' \<longleftrightarrow>
     cps ''age'' = None \<and>
     cps' = cps(''age'' \<mapsto> np_where (between 80 85 (map A_AGE person))
          (map (\<lambda>u. float64_value (float64_plus_int 80 (float64_times_int 5 u)))
             (np_random_rand rand (length person)))
          (stored (map A_AGE person)))"
  by (simp add: add_personal_variables_def h5_setitem_eq_Inr)

lemma add_personal_variables_le:
  "add_personal_variables cps person rand = Inr cps' \<Longrightarrow> cps \<subseteq>\<^sub>m cps'"
  unfolding add_personal_variables_def by (rule h5_setitem_le)

lemma age_column_length:
  "length (np_where (between 80 85 (map A_AGE person))
          (map (\<lambda>u. float64_value (float64_plus_int 80 (float64_times_int 5 u)))
             (np_random_rand rand (length person)))
          (stored (map A_AGE person))) = length person"
  by (simp add: np_where_def between_def np_random_rand_def stored_def)

lemma age_column_nth:
  "i < length person \<Longrightarrow>
   np_where (between 80 85 (map A_AGE person))
          (map (\<lambda>u. float64_value (float64_plus_int 80 (float64_times_int 5 u)))
             (np_random_rand rand (length person)))
          (stored (map A_AGE person)) ! i =
   (if 80 \<le> A_AGE (person ! i) \<and> A_AGE (person ! i) \<le> 85
    then float64_value (float64_plus_int 80 (float64_times_int 5 (int (rand i))))
    else of_int (A_AGE (person ! i)))"
  by (simp add: np_where_def between_def np_random_rand_def stored_def)

lemma age_column_eq:
  "np_where (between 80 85 (map A_AGE person))
          (map (\<lambda>u. float64_value (float64_plus_int 80 (float64_times_int 5 u)))
             (np_random_rand rand (length person)))
          (stored (map A_AGE person)) =
   map (\<lambda>i. if 80 \<le> A_AGE (person ! i) \<and> A_AGE (person ! i) \<le> 85
              then float64_value (float64_plus_int 80 (float64_times_int 5 (int (rand i))))
              else of_int (A_AGE (person ! i))) [0..<length person]"
  by (rule nth_equalityI) (simp_all add: age_column_length age_column_nth)

lemma add_personal_variables_lengths:
  assumes "add_personal_variables cps person rand = Inr cps'"
  shows "\<forall>n \<in> set [''age'']. \<exists>col. cps' n = Some col \<and> length col = length person"
  using assms by (simp add: add_personal_variables_Inr age_column_length)

text \<open>
  Claim C5 as stated puts the recoded age in the half-open interval from 80 to 85. The
  person has raw age 85 and the draw is \<open>(2^53 - 1) / 2^53\<close>, which is in the half-open
  interval from 0 to 1. In float64 \<open>5 * u\<close> rounds to \<open>5 - 2^-50\<close> and \<open>80 + (5 - 2^-50)\<close>
  rounds to 85: the stored age is exactly 85.
\<close>

theorem age_recode_counterexample:
  "add_personal_variables Map.empty [fx_person ! 0] fx_rand_top =
     Inr (Map.empty(''age'' \<mapsto> [85])) \<and>
   A_AGE (fx_person ! 0) = 85 \<and>
   0 \<le> real (fx_rand_top 0) / 2 ^ 53 \<and> real (fx_rand_top 0) / 2 ^ 53 < 1"
proof -
  have u: "0 \<le> real (fx_rand_top 0) / 2 ^ 53 \<and> real (fx_rand_top 0) / 2 ^ 53 < 1"
    by (simp add: fx_rand_top_def)
  have "add_personal_variables Map.empty [fx_person ! 0] fx_rand_top =
     Inr (Map.empty(''age'' \<mapsto> [85]))"
    by (simp add: add_personal_variables_def h5_setitem_def np_where_def between_def
        np_random_rand_def stored_def fx_person_def age_draw_top)
  moreover have "A_AGE (fx_person ! 0) = 85" by (simp add: fx_person_def)
  ultimately show ?thesis using u by simp
qed

text \<open>
  Claim C5, amended. Into a file that has no column \<open>age\<close> yet,
  \<open>add_personal_variables\<close> writes one with an entry per person row. For a row whose
  \<open>A_AGE\<close> is below 80 or above 85 the entry is \<open>A_AGE\<close> itself. For a row whose \<open>A_AGE\<close>
  is in the closed range from 80 to 85 the entry is the float64 result of \<open>80 + 5 * u\<close>,
  where \<open>u = k / 2^53\<close> is the draw of the generator at that row's position; for
  \<open>k < 2^53\<close>, that is \<open>u\<close> in the half-open interval from 0 to 1, the entry lies in the
  closed interval from 80 to 85 and is within \<open>68 / 2^53\<close> of the exact \<open>80 + 5 * u\<close>.
\<close>

theorem age_recode:
  assumes "cps ''age'' = None" and "i < length person"
  shows "\<exists>cps' ages. add_personal_variables cps person rand = Inr cps' \<and>
     cps' ''age'' = Some ages \<and> length ages = length person \<and>
     (if A_AGE (person ! i) < 80 \<or> 85 < A_AGE (person ! i)
      then ages ! i = of_int (A_AGE (person ! i))
      else ages ! i = float64_value (float64_plus_int 80 (float64_times_int 5 (int (rand i)))) \<and>
           (rand i < 2 ^ 53 \<longrightarrow>
              80 \<le> ages ! i \<and> ages ! i \<le> 85 \<and>
              \<bar>ages ! i - (80 + 5 * (real (rand i) / 2 ^ 53))\<bar> \<le> 68 / 2 ^ 53))"
proof -
  let ?ages = "np_where (between 80 85 (map A_AGE person))
          (map (\<lambda>u. float64_value (float64_plus_int 80 (float64_times_int 5 u)))
             (np_random_rand rand (length person)))
          (stored (map A_AGE person))"
  have run: "add_personal_variables cps person rand = Inr (cps(''age'' \<mapsto> ?ages))"
    using assms(1) by (simp add: add_personal_variables_Inr)
  have "if A_AGE (person ! i) < 80 \<or> 85 < A_AGE (person ! i)
      then ?ages ! i = of_int (A_AGE (person ! i))
      else ?ages ! i = float64_value (float64_plus_int 80 (float64_times_int 5 (int (rand i)))) \<and>
           (rand i < 2 ^ 53 \<longrightarrow>
              80 \<le> ?ages ! i \<and> ?ages ! i \<le> 85 \<and>
              \<bar>?ages ! i - (80 + 5 * (real (rand i) / 2 ^ 53))\<bar> \<le> 68 / 2 ^ 53)"
    using age_draw_bounds [of "rand i"] age_draw_error [of "rand i"]
    by (auto simp: age_column_nth [OF assms(2)])
  with run show ?thesis
    by (intro exI [of _ "cps(''age'' \<mapsto> ?ages)"] exI [of _ ?ages])
      (simp add: age_column_length)
qed

text \<open>
  In the small survey year the first person has raw age 85 and the second 79; with the
  draw one half the first is stored as 82.5 and the second as 79.
\<close>

theorem age_recode_witness:
  "\<exists>cps' ages. add_personal_variables Map.empty fx_person fx_rand = Inr cps' \<and>
     cps' ''age'' = Some ages \<and> length ages = 3 \<and>
     A_AGE (fx_person ! 0) = 85 \<and> real (fx_rand 0) / 2 ^ 53 = 1 / 2 \<and>
     ages ! 0 = 165 / 2 \<and> 80 \<le> ages ! 0 \<and> ages ! 0 \<le> 85 \<and>
     A_AGE (fx_person ! 1) = 79 \<and> ages ! 1 = 79"
proof -
  have fresh: "Map.empty ''age'' = (None :: real list option)" by simp
  have i0: "0 < length fx_person" and i1: "1 < length fx_person"
    by (simp_all add: fx_person_def)
  have facts: "A_AGE (fx_person ! 0) = 85" "A_AGE (fx_person ! 1) = 79" "length fx_person = 3"
    by (simp_all add: fx_person_def)
  have u: "real (fx_rand 0) / 2 ^ 53 = 1 / 2" "fx_rand 0 < 2 ^ 53"
    by (simp_all add: fx_rand_def)
  from age_recode [OF fresh i0, of fx_rand] obtain cps' ages where
    run: "add_personal_variables Map.empty fx_person fx_rand = Inr cps'"
    and ages: "cps' ''age'' = Some ages" and len: "length ages = 3"
    and a0: "ages ! 0 = 165 / 2" "80 \<le> ages ! 0" "ages ! 0 \<le> 85"
    unfolding facts using u(2) by (auto simp: age_draw_half)
  from age_recode [OF fresh i1, of fx_rand] obtain cps'' ages' where
    "add_personal_variables Map.empty fx_person fx_rand = Inr cps''"
    and "cps'' ''age'' = Some ages'" and "ages' ! 1 = 79"
    unfolding facts by auto
  with run ages have a1: "ages ! 1 = 79" by simp
  from run ages len a0 a1 facts(1,2) u(1) show ?thesis
    by (intro exI [of _ cps'] exI [of _ ages]) simp
qed

subsection \<open>Other income by type code\<close>

lemma mask_times_map:
  "mask_times (map c rows) (map v rows) = map (\<lambda>r. if c r then v r else 0) rows"
  by (induction rows) (simp_all add: mask_times_def)

lemma add_personal_income_variables_Inr:
  assumes "add_personal_income_variables cps person = Inr cps'"
  shows "cps' = cps
     (''employment_income'' \<mapsto> stored (map WSAL_VAL person),
      ''self_employment_income'' \<mapsto> stored (map SEMP_VAL person),
      ''e02100'' \<mapsto> stored (map FRSE_VAL person),
      ''social_security'' \<mapsto> stored (map SS_VAL person),
      ''e02300'' \<mapsto> stored (map UC_VAL person),
      ''e01500'' \<mapsto> stored (map (\<lambda>r. if OI_OFF r = 2 \<or> OI_OFF r = 13 then OI_VAL r else 0) person),
      ''e00800'' \<mapsto> stored (map (\<lambda>r. if OI_OFF r = 20 then OI_VAL r else 0) person))"
proof -
  have a: "isin [2, 13] (map OI_OFF person) = map (\<lambda>r. OI_OFF r = 2 \<or> OI_OFF r = 13) person"
    by (simp add: isin_def)
  have b: "map (\<lambda>x. x = 20) (map OI_OFF person) = map (\<lambda>r. OI_OFF r = 20) person"
    by simp
  show ?thesis
    using assms unfolding add_personal_income_variables_def a b mask_times_map
    by (auto simp: andThen_eq_Inr h5_setitem_eq_Inr)
qed

lemma add_personal_income_variables_le:
  assumes "add_personal_income_variables cps person = Inr cps'"
  shows "cps \<subseteq>\<^sub>m cps'"
  using assms unfolding add_personal_income_variables_def
  by (elim andThen_le h5_setitem_le)

lemma add_personal_income_variables_lengths:
  assumes "add_personal_income_variables cps person = Inr cps'"
  shows "\<forall>n \<in> set [''employment_income'', ''self_employment_income'', ''e02100'',
            ''social_security'', ''e02300'', ''e01500'', ''e00800''].
           \<exists>col. cps' n = Some col \<and> length col = length person"
  unfolding add_personal_income_variables_Inr [OF assms] by (simp add: stored_def)

text \<open>
  Claim C6. When \<open>add_personal_income_variables\<close> completes, \<open>e01500\<close> is \<open>OI_VAL\<close> on
  the rows whose \<open>OI_OFF\<close> is 2 or 13 and 0 on the others, \<open>e00800\<close> is \<open>OI_VAL\<close> on the
  rows whose \<open>OI_OFF\<close> is 20 and 0 on the others, and no code meets both conditions.
\<close>

theorem other_income_split:
  assumes "add_personal_income_variables cps person = Inr cps'"
  shows "cps' ''e01500'' =
           Some (map (\<lambda>r. if OI_OFF r \<in> {2, 13} then of_int (OI_VAL r) else 0) person) \<and>
         cps' ''e00800'' =
           Some (map (\<lambda>r. if OI_OFF r = 20 then of_int (OI_VAL r) else 0) person) \<and>
         (\<forall>r :: person_row. \<not> (OI_OFF r \<in> {2, 13} \<and> OI_OFF r = 20))"
  unfolding add_personal_income_variables_Inr [OF assms]
  by (auto simp: stored_def)

theorem other_income_split_witness:
  "\<exists>cps'. add_personal_income_variables Map.empty fx_person = Inr cps' \<and>
     map (\<lambda>r. (OI_OFF r, OI_VAL r)) fx_person = [(2, 500), (20, 300), (7, 100)] \<and>
     cps' ''e01500'' = Some [500, 0, 0] \<and> cps' ''e00800'' = Some [0, 300, 0]"
proof -
  obtain cps' where run: "add_personal_income_variables Map.empty fx_person = Inr cps'"
    by (simp add: add_personal_income_variables_def h5_setitem_def)
  have rows: "map (\<lambda>r. (OI_OFF r, OI_VAL r)) fx_person = [(2, 500), (20, 300), (7, 100)]"
    by (simp add: fx_person_def)
  from other_income_split [OF run]
  have "cps' ''e01500'' = Some [500, 0, 0] \<and> cps' ''e00800'' = Some [0, 300, 0]"
    by (simp add: fx_person_def)
  with run rows show ?thesis by (intro exI [of _ cps']) simp
qed

subsection \<open>The SPM-unit pass\<close>

lemma add_spm_variables_Inr:
  assumes "add_spm_variables cps spm_unit = Inr cps'"
  shows "cps' = cps
     (''spm_unit_total_income'' \<mapsto> stored (map SPM_TOTVAL spm_unit),
      ''snap'' \<mapsto> stored (map SPM_SNAPSUB spm_unit),
      ''spm_unit_capped_housing_subsidy'' \<mapsto> stored (map SPM_CAPHOUSESUB spm_unit),
      ''free_school_meals'' \<mapsto> stored (map SPM_SCHLUNCH spm_unit),
      ''spm_unit_energy_subsidy'' \<mapsto> stored (map SPM_ENGVAL spm_unit),
      ''spm_unit_wic'' \<mapsto> stored (map SPM_WICVAL spm_unit),
      ''spm_unit_fica'' \<mapsto> stored (map SPM_FICA spm_unit),
      ''spm_unit_federal_tax'' \<mapsto> stored (map SPM_FEDTAX spm_unit),
      ''spm_unit_state_tax'' \<mapsto> stored (map SPM_STTAX spm_unit),
      ''spm_unit_work_childcare_expenses'' \<mapsto> stored (map SPM_CAPWKCCXPNS spm_unit),
      ''spm_unit_medical_expenses'' \<mapsto> stored (map SPM_MEDXPNS spm_unit),
      ''spm_unit_spm_threshold'' \<mapsto> stored (map SPM_POVTHRESHOLD spm_unit),
      ''spm_unit_net_income_reported'' \<mapsto> stored (map SPM_RESOURCES spm_unit),
      ''reduced_price_school_meals'' \<mapsto> map (\<lambda>x. x * 0) (stored (map SPM_SCHLUNCH spm_unit)))"
  using assms
  unfolding add_spm_variables_def SPM_RENAMES_def
  by (auto simp: andThen_eq_Inr h5_setitem_eq_Inr spm_unit_getitem_def spm_unit_columns_def
      h5_getitem_def)

lemma copy_renames_le: "copy_renames table spm_unit cps = Inr cps' \<Longrightarrow> cps \<subseteq>\<^sub>m cps'"
proof (induction table arbitrary: cps)
  case Nil
  then show ?case by simp
next
  case (Cons entry table)
  obtain openfisca_variable asec_variable where entry: "entry = (openfisca_variable, asec_variable)"
    by (cases entry)
  from Cons.prems obtain col c where
    w: "h5_setitem openfisca_variable (stored col) cps = Inr c"
    and rest: "copy_renames table spm_unit c = Inr cps'"
    unfolding entry by (auto simp: andThen_eq_Inr)
  from h5_setitem_le [OF w] Cons.IH [OF rest] show ?case
    by (rule map_le_trans)
qed

lemma add_spm_variables_le:
  assumes "add_spm_variables cps spm_unit = Inr cps'"
  shows "cps \<subseteq>\<^sub>m cps'"
proof -
  from assms obtain c fsm where c: "copy_renames SPM_RENAMES spm_unit cps = Inr c"
    and w: "h5_setitem ''reduced_price_school_meals'' (map (\<lambda>x. x * 0) fsm) c = Inr cps'"
    unfolding add_spm_variables_def by (auto simp: andThen_eq_Inr)
  from copy_renames_le [OF c] h5_setitem_le [OF w] show ?thesis
    by (rule map_le_trans)
qed

lemma add_spm_variables_lengths:
  assumes "add_spm_variables cps spm_unit = Inr cps'"
  shows "\<forall>n \<in> set (''reduced_price_school_meals'' # map fst SPM_RENAMES).
           \<exists>col. cps' n = Some col \<and> length col = length spm_unit"
  unfolding add_spm_variables_Inr [OF assms] by (simp add: stored_def SPM_RENAMES_def)

text \<open>
  Claim C8 as stated speaks of fourteen raw fields. The rename table \<open>SPM_RENAMES\<close> has
  thirteen entries, naming thirteen different raw fields.
\<close>

theorem spm_renames_count_counterexample:
  "length SPM_RENAMES = 13 \<and> length (remdups (map snd SPM_RENAMES)) = 13 \<and>
   length SPM_RENAMES \<noteq> 14"
  by (simp add: SPM_RENAMES_def)

text \<open>
  Claim C8, amended. The rename table has thirteen entries, with thirteen different
  canonical names and thirteen different raw fields. When \<open>add_spm_variables\<close> completes,
  each of the thirteen canonical columns is its raw field, row by row and unchanged. The
  fourteenth column the pass writes, \<open>reduced_price_school_meals\<close>, has no raw source: it is
  zero in every row.
\<close>

theorem spm_renames_copy:
  assumes "add_spm_variables cps spm_unit = Inr cps'"
  shows "length SPM_RENAMES = 13 \<and>
     distinct (map fst SPM_RENAMES) \<and> distinct (map snd SPM_RENAMES) \<and>
     cps' ''spm_unit_total_income'' = Some (map (\<lambda>r. of_int (SPM_TOTVAL r)) spm_unit) \<and>
     cps' ''snap'' = Some (map (\<lambda>r. of_int (SPM_SNAPSUB r)) spm_unit) \<and>
     cps' ''spm_unit_capped_housing_subsidy'' =
       Some (map (\<lambda>r. of_int (SPM_CAPHOUSESUB r)) spm_unit) \<and>
     cps' ''free_school_meals'' = Some (map (\<lambda>r. of_int (SPM_SCHLUNCH r)) spm_unit) \<and>
     cps' ''spm_unit_energy_subsidy'' = Some (map (\<lambda>r. of_int (SPM_ENGVAL r)) spm_unit) \<and>
     cps' ''spm_unit_wic'' = Some (map (\<lambda>r. of_int (SPM_WICVAL r)) spm_unit) \<and>
     cps' ''spm_unit_fica'' = Some (map (\<lambda>r. of_int (SPM_FICA r)) spm_unit) \<and>
     cps' ''spm_unit_federal_tax'' = Some (map (\<lambda>r. of_int (SPM_FEDTAX r)) spm_unit) \<and>
     cps' ''spm_unit_state_tax'' = Some (map (\<lambda>r. of_int (SPM_STTAX r)) spm_unit) \<and>
     cps' ''spm_unit_work_childcare_expenses'' =
       Some (map (\<lambda>r. of_int (SPM_CAPWKCCXPNS r)) spm_unit) \<and>
     cps' ''spm_unit_medical_expenses'' = Some (map (\<lambda>r. of_int (SPM_MEDXPNS r)) spm_unit) \<and>
     cps' ''spm_unit_spm_threshold'' = Some (map (\<lambda>r. of_int (SPM_POVTHRESHOLD r)) spm_unit) \<and>
     cps' ''spm_unit_net_income_reported'' =
       Some (map (\<lambda>r. of_int (SPM_RESOURCES r)) spm_unit) \<and>
     cps' ''reduced_price_school_meals'' = Some (map (\<lambda>r. 0) spm_unit)"
proof -
  have table: "length SPM_RENAMES = 13 \<and>
     distinct (map fst SPM_RENAMES) \<and> distinct (map snd SPM_RENAMES)"
    by (simp add: SPM_RENAMES_def)
  show ?thesis
    unfolding add_spm_variables_Inr [OF assms] using table
    by (simp add: stored_def comp_def)
qed

theorem spm_renames_copy_witness:
  "\<exists>cps'. add_spm_variables Map.empty fx_spm_unit = Inr cps' \<and>
     cps' ''spm_unit_total_income'' = Some [2150] \<and> cps' ''snap'' = Some [10] \<and>
     cps' ''spm_unit_capped_housing_subsidy'' = Some [20] \<and>
     cps' ''free_school_meals'' = Some [30] \<and> cps' ''spm_unit_energy_subsidy'' = Some [40] \<and>
     cps' ''spm_unit_wic'' = Some [50] \<and> cps' ''spm_unit_fica'' = Some [60] \<and>
     cps' ''spm_unit_federal_tax'' = Some [70] \<and> cps' ''spm_unit_state_tax'' = Some [80] \<and>
     cps' ''spm_unit_work_childcare_expenses'' = Some [90] \<and>
     cps' ''spm_unit_medical_expenses'' = Some [100] \<and>
     cps' ''spm_unit_spm_threshold'' = Some [110] \<and>
     cps' ''spm_unit_net_income_reported'' = Some [120] \<and>
     cps' ''reduced_price_school_meals'' = Some [0]"
proof -
  obtain cps' where run: "add_spm_variables Map.empty fx_spm_unit = Inr cps'"
    by (simp add: add_spm_variables_def SPM_RENAMES_def spm_unit_getitem_def
        spm_unit_columns_def h5_setitem_def h5_getitem_def)
  from spm_renames_copy [OF run] run show ?thesis
    by (intro exI [of _ cps']) (simp add: fx_spm_unit_def)
qed

subsection \<open>The household pass and the whole run\<close>

lemma add_household_variables_Inr:
  "add_household_variables cps household = Inr cps' \<longleftrightarrow>
     cps ''fips'' = None \<and> cps' = cps(''fips'' \<mapsto> stored (map GESTFIPS household))"
  by (simp add: add_household_variables_def h5_setitem_eq_Inr)

lemma add_household_variables_le:
  "add_household_variables cps household = Inr cps' \<Longrightarrow> cps \<subseteq>\<^sub>m cps'"
  unfolding add_household_variables_def by (rule h5_setitem_le)

lemma add_household_variables_lengths:
  assumes "add_household_variables cps household = Inr cps'"
  shows "\<forall>n \<in> set [''fips'']. \<exists>col. cps' n = Some col \<and> length col = length household"
  using assms by (simp add: add_household_variables_Inr stored_def)

lemma run_passes_Inr:
  assumes "run_passes raw rand cps = Inr cps'"
  shows "\<exists>c1 c2 c3 c4.
     add_id_variables cps (person_table raw) (tax_unit_table raw) (family_table raw)
       (spm_unit_table raw) (household_table raw) = Inr c1 \<and>
     add_personal_variables c1 (person_table raw) rand = Inr c2 \<and>
     add_personal_income_variables c2 (person_table raw) = Inr c3 \<and>
     add_spm_variables c3 (spm_unit_table raw) = Inr c4 \<and>
     add_household_variables c4 (household_table raw) = Inr cps'"
  using assms by (simp add: run_passes_def andThen_eq_Inr)

lemma run_passes_id_columns:
  assumes "run_passes raw rand cps = Inr cps'"
  shows "\<exists>c1. add_id_variables cps (person_table raw) (tax_unit_table raw) (family_table raw)
       (spm_unit_table raw) (household_table raw) = Inr c1 \<and> c1 \<subseteq>\<^sub>m cps'"
proof -
  from run_passes_Inr [OF assms] obtain c1 c2 c3 c4 where
    r1: "add_id_variables cps (person_table raw) (tax_unit_table raw) (family_table raw)
       (spm_unit_table raw) (household_table raw) = Inr c1"
    and r2: "add_personal_variables c1 (person_table raw) rand = Inr c2"
    and r3: "add_personal_income_variables c2 (person_table raw) = Inr c3"
    and r4: "add_spm_variables c3 (spm_unit_table raw) = Inr c4"
    and r5: "add_household_variables c4 (household_table raw) = Inr cps'"
    by blast
  have le4: "c4 \<subseteq>\<^sub>m cps'" using r5 by (rule add_household_variables_le)
  have le3: "c3 \<subseteq>\<^sub>m cps'" using add_spm_variables_le [OF r4] le4 by (rule map_le_trans)
  have le2: "c2 \<subseteq>\<^sub>m cps'"
    using add_personal_income_variables_le [OF r3] le3 by (rule map_le_trans)
  have le1: "c1 \<subseteq>\<^sub>m cps'" using add_personal_variables_le [OF r2] le2 by (rule map_le_trans)
  with r1 show ?thesis by blast
qed

lemma run_passes_lengths:
  assumes "run_passes raw rand cps = Inr cps'"
  shows "\<forall>n \<in> set person_columns.
           \<exists>col. cps' n = Some col \<and> length col = length (person_table raw)"
    and "\<forall>n \<in> set family_columns.
           \<exists>col. cps' n = Some col \<and> length col = length (family_table raw)"
    and "\<forall>n \<in> set spm_unit_columns_out.
           \<exists>col. cps' n = Some col \<and> length col = length (spm_unit_table raw)"
    and "\<forall>n \<in> set household_columns.
           \<exists>col. cps' n = Some col \<and> length col = length (household_table raw)"
proof -
  from run_passes_Inr [OF assms] obtain c1 c2 c3 c4 where
    r1: "add_id_variables cps (person_table raw) (tax_unit_table raw) (family_table raw)
       (spm_unit_table raw) (household_table raw) = Inr c1"
    and r2: "add_personal_variables c1 (person_table raw) rand = Inr c2"
    and r3: "add_personal_income_variables c2 (person_table raw) = Inr c3"
    and r4: "add_spm_variables c3 (spm_unit_table raw) = Inr c4"
    and r5: "add_household_variables c4 (household_table raw) = Inr cps'"
    by blast
  have le4: "c4 \<subseteq>\<^sub>m cps'" using r5 by (rule add_household_variables_le)
  have le3: "c3 \<subseteq>\<^sub>m cps'" using add_spm_variables_le [OF r4] le4 by (rule map_le_trans)
  have le2: "c2 \<subseteq>\<^sub>m cps'"
    using add_personal_income_variables_le [OF r3] le3 by (rule map_le_trans)
  have le1: "c1 \<subseteq>\<^sub>m cps'" using add_personal_variables_le [OF r2] le2 by (rule map_le_trans)
  note id = add_id_variables_lengths [OF r1]
  show "\<forall>n \<in> set person_columns.
           \<exists>col. cps' n = Some col \<and> length col = length (person_table raw)"
    using columns_lift [OF le1 id(1)] columns_lift [OF le2 add_personal_variables_lengths [OF r2]]
      columns_lift [OF le3 add_personal_income_variables_lengths [OF r3]]
    by (simp add: person_columns_def)
  show "\<forall>n \<in> set family_columns.
           \<exists>col. cps' n = Some col \<and> length col = length (family_table raw)"
    using columns_lift [OF le1 id(2)] by (simp add: family_columns_def)
  show "\<forall>n \<in> set spm_unit_columns_out.
           \<exists>col. cps' n = Some col \<and> length col = length (spm_unit_table raw)"
    using columns_lift [OF le1 id(3)] columns_lift [OF le4 add_spm_variables_lengths [OF r4]]
    by (simp add: spm_unit_columns_out_def)
  show "\<forall>n \<in> set household_columns.
           \<exists>col. cps' n = Some col \<and> length col = length (household_table raw)"
    using columns_lift [OF le1 id(4)] add_household_variables_lengths [OF r5]
    by (simp add: household_columns_def)
qed

lemma run_passes_columns:
  assumes "run_passes raw rand cps = Inr cps'"
  shows "cps' ''person_id'' =
       Some (map (\<lambda>r. of_int (PH_SEQ r * 100 + P_SEQ r)) (person_table raw)) \<and>
     cps' ''person_tax_unit_id'' =
       Some (map (\<lambda>r. of_int (TAX_ID r)) (person_table raw)) \<and>
     cps' ''person_spm_unit_id'' =
       Some (map (\<lambda>r. of_int (SPM_ID r)) (person_table raw)) \<and>
     cps' ''person_household_id'' =
       Some (map (\<lambda>r. of_int (PH_SEQ r)) (person_table raw)) \<and>
     cps' ''person_family_id'' =
       Some (map (\<lambda>r. of_int (PH_SEQ r * 10 + PF_SEQ r)) (person_table raw)) \<and>
     cps' ''person_weight'' =
       Some (map (\<lambda>r. of_int (A_FNLWGT r) / 100) (person_table raw)) \<and>
     cps' ''age'' =
       Some (map (\<lambda>i. if 80 \<le> A_AGE (person_table raw ! i) \<and> A_AGE (person_table raw ! i) \<le> 85
                then float64_value (float64_plus_int 80 (float64_times_int 5 (int (rand i))))
                else of_int (A_AGE (person_table raw ! i))) [0..<length (person_table raw)]) \<and>
     cps' ''employment_income'' =
       Some (map (\<lambda>r. of_int (WSAL_VAL r)) (person_table raw)) \<and>
     cps' ''self_employment_income'' =
       Some (map (\<lambda>r. of_int (SEMP_VAL r)) (person_table raw)) \<and>
     cps' ''e02100'' =
       Some (map (\<lambda>r. of_int (FRSE_VAL r)) (person_table raw)) \<and>
     cps' ''social_security'' =
       Some (map (\<lambda>r. of_int (SS_VAL r)) (person_table raw)) \<and>
     cps' ''e02300'' =
       Some (map (\<lambda>r. of_int (UC_VAL r)) (person_table raw)) \<and>
     cps' ''e01500'' =
       Some (map (\<lambda>r. if OI_OFF r \<in> {2, 13} then of_int (OI_VAL r) else 0) (person_table raw)) \<and>
     cps' ''e00800'' =
       Some (map (\<lambda>r. if OI_OFF r = 20 then of_int (OI_VAL r) else 0) (person_table raw)) \<and>
     cps' ''family_id'' =
       Some (map (\<lambda>r. of_int (FH_SEQ r * 10 + FFPOS r)) (family_table raw)) \<and>
     cps' ''family_weight'' =
       Some (map (\<lambda>r. of_int (FSUP_WGT r) / 100) (family_table raw)) \<and>
     cps' ''spm_unit_id'' =
       Some (map (\<lambda>r. of_int (su_SPM_ID r)) (spm_unit_table raw)) \<and>
     cps' ''spm_unit_weight'' =
       Some (map (\<lambda>r. of_int (SPM_WEIGHT r) / 100) (spm_unit_table raw)) \<and>
     cps' ''spm_unit_total_income'' =
       Some (map (\<lambda>r. of_int (SPM_TOTVAL r)) (spm_unit_table raw)) \<and>
     cps' ''snap'' =
       Some (map (\<lambda>r. of_int (SPM_SNAPSUB r)) (spm_unit_table raw)) \<and>
     cps' ''spm_unit_capped_housing_subsidy'' =
       Some (map (\<lambda>r. of_int (SPM_CAPHOUSESUB r)) (spm_unit_table raw)) \<and>
     cps' ''free_school_meals'' =
       Some (map (\<lambda>r. of_int (SPM_SCHLUNCH r)) (spm_unit_table raw)) \<and>
     cps' ''spm_unit_energy_subsidy'' =
       Some (map (\<lambda>r. of_int (SPM_ENGVAL r)) (spm_unit_table raw)) \<and>
     cps' ''spm_unit_wic'' =
       Some (map (\<lambda>r. of_int (SPM_WICVAL r)) (spm_unit_table raw)) \<and>
     cps' ''spm_unit_fica'' =
       Some (map (\<lambda>r. of_int (SPM_FICA r)) (spm_unit_table raw)) \<and>
     cps' ''spm_unit_federal_tax'' =
       Some (map (\<lambda>r. of_int (SPM_FEDTAX r)) (spm_unit_table raw)) \<and>
     cps' ''spm_unit_state_tax'' =
       Some (map (\<lambda>r. of_int (SPM_STTAX r)) (spm_unit_table raw)) \<and>
     cps' ''spm_unit_work_childcare_expenses'' =
       Some (map (\<lambda>r. of_int (SPM_CAPWKCCXPNS r)) (spm_unit_table raw)) \<and>
     cps' ''spm_unit_medical_expenses'' =
       Some (map (\<lambda>r. of_int (SPM_MEDXPNS r)) (spm_unit_table raw)) \<and>
     cps' ''spm_unit_spm_threshold'' =
       Some (map (\<lambda>r. of_int (SPM_POVTHRESHOLD r)) (spm_unit_table raw)) \<and>
     cps' ''spm_unit_net_income_reported'' =
       Some (map (\<lambda>r. of_int (SPM_RESOURCES r)) (spm_unit_table raw)) \<and>
     cps' ''reduced_price_school_meals'' =
       Some (map (\<lambda>r. 0) (spm_unit_table raw)) \<and>
     cps' ''household_id'' =
       Some (map (\<lambda>r. of_int (H_SEQ r)) (household_table raw)) \<and>
     cps' ''household_weight'' =
       Some (map (\<lambda>r. of_int (HSUP_WGT r) / 100) (household_table raw)) \<and>
     cps' ''fips'' =
       Some (map (\<lambda>r. of_int (GESTFIPS r)) (household_table raw))"
proof -
  from run_passes_Inr [OF assms] obtain c1 c2 c3 c4 where
    r1: "add_id_variables cps (person_table raw) (tax_unit_table raw) (family_table raw)
       (spm_unit_table raw) (household_table raw) = Inr c1"
    and r2: "add_personal_variables c1 (person_table raw) rand = Inr c2"
    and r3: "add_personal_income_variables c2 (person_table raw) = Inr c3"
    and r4: "add_spm_variables c3 (spm_unit_table raw) = Inr c4"
    and r5: "add_household_variables c4 (household_table raw) = Inr cps'"
    by blast
  have le4: "c4 \<subseteq>\<^sub>m cps'" using r5 by (rule add_household_variables_le)
  have le3: "c3 \<subseteq>\<^sub>m cps'" using add_spm_variables_le [OF r4] le4 by (rule map_le_trans)
  have le2: "c2 \<subseteq>\<^sub>m cps'"
    using add_personal_income_variables_le [OF r3] le3 by (rule map_le_trans)
  have le1: "c1 \<subseteq>\<^sub>m cps'" using add_personal_variables_le [OF r2] le2 by (rule map_le_trans)
  have c1: "c1 ''person_id'' =
         Some (map (\<lambda>r. of_int (PH_SEQ r * 100 + P_SEQ r)) (person_table raw)) \<and>
       c1 ''person_tax_unit_id'' =
         Some (map (\<lambda>r. of_int (TAX_ID r)) (person_table raw)) \<and>
       c1 ''person_spm_unit_id'' =
         Some (map (\<lambda>r. of_int (SPM_ID r)) (person_table raw)) \<and>
       c1 ''person_household_id'' =
         Some (map (\<lambda>r. of_int (PH_SEQ r)) (person_table raw)) \<and>
       c1 ''person_family_id'' =
         Some (map (\<lambda>r. of_int (PH_SEQ r * 10 + PF_SEQ r)) (person_table raw)) \<and>
       c1 ''person_weight'' =
         Some (map (\<lambda>r. of_int (A_FNLWGT r) / 100) (person_table raw)) \<and>
       c1 ''family_id'' =
         Some (map (\<lambda>r. of_int (FH_SEQ r * 10 + FFPOS r)) (family_table raw)) \<and>
       c1 ''family_weight'' =
         Some (map (\<lambda>r. of_int (FSUP_WGT r) / 100) (family_table raw)) \<and>
       c1 ''tax_unit_id'' =
         Some (map (\<lambda>r. of_int (tu_TAX_ID r)) (tax_unit_table raw)) \<and>
       c1 ''spm_unit_id'' =
         Some (map (\<lambda>r. of_int (su_SPM_ID r)) (spm_unit_table raw)) \<and>
       c1 ''spm_unit_weight'' =
         Some (map (\<lambda>r. of_int (SPM_WEIGHT r) / 100) (spm_unit_table raw)) \<and>
       c1 ''household_id'' =
         Some (map (\<lambda>r. of_int (H_SEQ r)) (household_table raw)) \<and>
       c1 ''household_weight'' =
         Some (map (\<lambda>r. of_int (HSUP_WGT r) / 100) (household_table raw))"
    using add_id_variables_Inr [OF r1] by (auto simp: stored_def div_1e2_def)
  have c2: "c2 ''age'' =
         Some (map (\<lambda>i. if 80 \<le> A_AGE (person_table raw ! i) \<and> A_AGE (person_table raw ! i) \<le> 85
                then float64_value (float64_plus_int 80 (float64_times_int 5 (int (rand i))))
                else of_int (A_AGE (person_table raw ! i))) [0..<length (person_table raw)])"
    using r2 by (simp add: add_personal_variables_Inr age_column_eq)
  have c3: "c3 ''employment_income'' =
         Some (map (\<lambda>r. of_int (WSAL_VAL r)) (person_table raw)) \<and>
       c3 ''self_employment_income'' =
         Some (map (\<lambda>r. of_int (SEMP_VAL r)) (person_table raw)) \<and>
       c3 ''e02100'' =
         Some (map (\<lambda>r. of_int (FRSE_VAL r)) (person_table raw)) \<and>
       c3 ''social_security'' =
         Some (map (\<lambda>r. of_int (SS_VAL r)) (person_table raw)) \<and>
       c3 ''e02300'' =
         Some (map (\<lambda>r. of_int (UC_VAL r)) (person_table raw)) \<and>
       c3 ''e01500'' =
         Some (map (\<lambda>r. if OI_OFF r \<in> {2, 13} then of_int (OI_VAL r) else 0) (person_table raw)) \<and>
       c3 ''e00800'' =
         Some (map (\<lambda>r. if OI_OFF r = 20 then of_int (OI_VAL r) else 0) (person_table raw))"
    unfolding add_personal_income_variables_Inr [OF r3] by (auto simp: stored_def)
  have c4: "c4 ''spm_unit_total_income'' =
         Some (map (\<lambda>r. of_int (SPM_TOTVAL r)) (spm_unit_table raw)) \<and>
       c4 ''snap'' =
         Some (map (\<lambda>r. of_int (SPM_SNAPSUB r)) (spm_unit_table raw)) \<and>
       c4 ''spm_unit_capped_housing_subsidy'' =
         Some (map (\<lambda>r. of_int (SPM_CAPHOUSESUB r)) (spm_unit_table raw)) \<and>
       c4 ''free_school_meals'' =
         Some (map (\<lambda>r. of_int (SPM_SCHLUNCH r)) (spm_unit_table raw)) \<and>
       c4 ''spm_unit_energy_subsidy'' =
         Some (map (\<lambda>r. of_int (SPM_ENGVAL r)) (spm_unit_table raw)) \<and>
       c4 ''spm_unit_wic'' =
         Some (map (\<lambda>r. of_int (SPM_WICVAL r)) (spm_unit_table raw)) \<and>
       c4 ''spm_unit_fica'' =
         Some (map (\<lambda>r. of_int (SPM_FICA r)) (spm_unit_table raw)) \<and>
       c4 ''spm_unit_federal_tax'' =
         Some (map (\<lambda>r. of_int (SPM_FEDTAX r)) (spm_unit_table raw)) \<and>
       c4 ''spm_unit_state_tax'' =
         Some (map (\<lambda>r. of_int (SPM_STTAX r)) (spm_unit_table raw)) \<and>
       c4 ''spm_unit_work_childcare_expenses'' =
         Some (map (\<lambda>r. of_int (SPM_CAPWKCCXPNS r)) (spm_unit_table raw)) \<and>
       c4 ''spm_unit_medical_expenses'' =
         Some (map (\<lambda>r. of_int (SPM_MEDXPNS r)) (spm_unit_table raw)) \<and>
       c4 ''spm_unit_spm_threshold'' =
         Some (map (\<lambda>r. of_int (SPM_POVTHRESHOLD r)) (spm_unit_table raw)) \<and>
       c4 ''spm_unit_net_income_reported'' =
         Some (map (\<lambda>r. of_int (SPM_RESOURCES r)) (spm_unit_table raw)) \<and>
       c4 ''reduced_price_school_meals'' =
         Some (map (\<lambda>r. 0) (spm_unit_table raw))"
    unfolding add_spm_variables_Inr [OF r4] by (simp add: stored_def comp_def)
  have c5: "cps' ''fips'' =
         Some (map (\<lambda>r. of_int (GESTFIPS r)) (household_table raw))"
    using r5 by (simp add: add_household_variables_Inr stored_def)
  have p1: "cps' ''person_id'' =
         Some (map (\<lambda>r. of_int (PH_SEQ r * 100 + P_SEQ r)) (person_table raw)) \<and>
       cps' ''person_tax_unit_id'' =
         Some (map (\<lambda>r. of_int (TAX_ID r)) (person_table raw)) \<and>
       cps' ''person_spm_unit_id'' =
         Some (map (\<lambda>r. of_int (SPM_ID r)) (person_table raw)) \<and>
       cps' ''person_household_id'' =
         Some (map (\<lambda>r. of_int (PH_SEQ r)) (person_table raw)) \<and>
       cps' ''person_family_id'' =
         Some (map (\<lambda>r. of_int (PH_SEQ r * 10 + PF_SEQ r)) (person_table raw)) \<and>
       cps' ''person_weight'' =
         Some (map (\<lambda>r. of_int (A_FNLWGT r) / 100) (person_table raw)) \<and>
       cps' ''family_id'' =
         Some (map (\<lambda>r. of_int (FH_SEQ r * 10 + FFPOS r)) (family_table raw)) \<and>
       cps' ''family_weight'' =
         Some (map (\<lambda>r. of_int (FSUP_WGT r) / 100) (family_table raw)) \<and>
       cps' ''tax_unit_id'' =
         Some (map (\<lambda>r. of_int (tu_TAX_ID r)) (tax_unit_table raw)) \<and>
       cps' ''spm_unit_id'' =
         Some (map (\<lambda>r. of_int (su_SPM_ID r)) (spm_unit_table raw)) \<and>
       cps' ''spm_unit_weight'' =
         Some (map (\<lambda>r. of_int (SPM_WEIGHT r) / 100) (spm_unit_table raw)) \<and>
       cps' ''household_id'' =
         Some (map (\<lambda>r. of_int (H_SEQ r)) (household_table raw)) \<and>
       cps' ''household_weight'' =
         Some (map (\<lambda>r. of_int (HSUP_WGT r) / 100) (household_table raw))"
    by (intro conjI map_le_Some [OF le1]) (simp_all add: c1)
  have p2: "cps' ''age'' =
         Some (map (\<lambda>i. if 80 \<le> A_AGE (person_table raw ! i) \<and> A_AGE (person_table raw ! i) \<le> 85
                then float64_value (float64_plus_int 80 (float64_times_int 5 (int (rand i))))
                else of_int (A_AGE (person_table raw ! i))) [0..<length (person_table raw)])"
    by (intro conjI map_le_Some [OF le2]) (simp_all add: c2)
  have p3: "cps' ''employment_income'' =
         Some (map (\<lambda>r. of_int (WSAL_VAL r)) (person_table raw)) \<and>
       cps' ''self_employment_income'' =
         Some (map (\<lambda>r. of_int (SEMP_VAL r)) (person_table raw)) \<and>
       cps' ''e02100'' =
         Some (map (\<lambda>r. of_int (FRSE_VAL r)) (person_table raw)) \<and>
       cps' ''social_security'' =
         Some (map (\<lambda>r. of_int (SS_VAL r)) (person_table raw)) \<and>
       cps' ''e02300'' =
         Some (map (\<lambda>r. of_int (UC_VAL r)) (person_table raw)) \<and>
       cps' ''e01500'' =
         Some (map (\<lambda>r. if OI_OFF r \<in> {2, 13} then of_int (OI_VAL r) else 0) (person_table raw)) \<and>
       cps' ''e00800'' =
         Some (map (\<lambda>r. if OI_OFF r = 20 then of_int (OI_VAL r) else 0) (person_table raw))"
    by (intro conjI map_le_Some [OF le3]) (simp_all add: c3)
  have p4: "cps' ''spm_unit_total_income'' =
         Some (map (\<lambda>r. of_int (SPM_TOTVAL r)) (spm_unit_table raw)) \<and>
       cps' ''snap'' =
         Some (map (\<lambda>r. of_int (SPM_SNAPSUB r)) (spm_unit_table raw)) \<and>
       cps' ''spm_unit_capped_housing_subsidy'' =
         Some (map (\<lambda>r. of_int (SPM_CAPHOUSESUB r)) (spm_unit_table raw)) \<and>
       cps' ''free_school_meals'' =
         Some (map (\<lambda>r. of_int (SPM_SCHLUNCH r)) (spm_unit_table raw)) \<and>
       cps' ''spm_unit_energy_subsidy'' =
         Some (map (\<lambda>r. of_int (SPM_ENGVAL r)) (spm_unit_table raw)) \<and>
       cps' ''spm_unit_wic'' =
         Some (map (\<lambda>r. of_int (SPM_WICVAL r)) (spm_unit_table raw)) \<and>
       cps' ''spm_unit_fica'' =
         Some (map (\<lambda>r. of_int (SPM_FICA r)) (spm_unit_table raw)) \<and>
       cps' ''spm_unit_federal_tax'' =
         Some (map (\<lambda>r. of_int (SPM_FEDTAX r)) (spm_unit_table raw)) \<and>
       cps' ''spm_unit_state_tax'' =
         Some (map (\<lambda>r. of_int (SPM_STTAX r)) (spm_unit_table raw)) \<and>
       cps' ''spm_unit_work_childcare_expenses'' =
         Some (map (\<lambda>r. of_int (SPM_CAPWKCCXPNS r)) (spm_unit_table raw)) \<and>
       cps' ''spm_unit_medical_expenses'' =
         Some (map (\<lambda>r. of_int (SPM_MEDXPNS r)) (spm_unit_table raw)) \<and>
       cps' ''spm_unit_spm_threshold'' =
         Some (map (\<lambda>r. of_int (SPM_POVTHRESHOLD r)) (spm_unit_table raw)) \<and>
       cps' ''spm_unit_net_income_reported'' =
         Some (map (\<lambda>r. of_int (SPM_RESOURCES r)) (spm_unit_table raw)) \<and>
       cps' ''reduced_price_school_meals'' =
         Some (map (\<lambda>r. 0) (spm_unit_table raw))"
    by (intro conjI map_le_Some [OF le4]) (simp_all add: c4)
  show ?thesis
    by (intro conjI) (simp_all only: p1 p2 p3 p4 c5)
qed

lemma run_passes_completes:
  assumes "\<forall>p \<in> set (person_table raw).
      length (filter (\<lambda>r. FH_SEQ r * 10 + FFPOS r = PH_SEQ p * 10 + PF_SEQ p)
        (family_table raw)) = 1"
  shows "\<exists>cps'. run_passes raw rand Map.empty = Inr cps'"
proof -
  have "list_all (\<lambda>n. Map.empty n = None) id_variable_names"
    by (simp add: id_variable_names_def)
  from add_id_variables_completes [OF this assms] obtain c1 where
    r1: "add_id_variables Map.empty (person_table raw) (tax_unit_table raw) (family_table raw)
       (spm_unit_table raw) (household_table raw) = Inr c1"
    by blast
  have dom1: "c1 n = None" if "n \<notin> set id_variable_names" for n
    using add_id_variables_Inr [OF r1] that by (auto simp: id_variable_names_def)
  have "\<exists>cps'. andThen (add_personal_variables c1 (person_table raw) rand) (\<lambda>cps.
     andThen (add_personal_income_variables cps (person_table raw)) (\<lambda>cps.
     andThen (add_spm_variables cps (spm_unit_table raw)) (\<lambda>cps.
     add_household_variables cps (household_table raw)))) = Inr cps'"
    by (simp add: add_personal_variables_def add_personal_income_variables_def
        add_spm_variables_def add_household_variables_def SPM_RENAMES_def spm_unit_getitem_def
        spm_unit_columns_def h5_setitem_def h5_getitem_def dom1 id_variable_names_def)
  then show ?thesis
    by (simp add: run_passes_def r1)
qed

subsection \<open>Handles\<close>

text \<open>
  After \<open>RawCPS.load\<close> has returned, \<open>generate\<close> reaches its two \<open>close()\<close> calls
  when all five passes complete, and on no path where one of them raises.
\<close>

text \<open>
  After \<open>RawCPS.load\<close> has returned, \<open>generate\<close> reaches its two \<open>close()\<close> calls
  when all five passes complete, and on no path where one of them raises.
\<close>

text \<open>
  After \<open>RawCPS.load\<close> has returned, \<open>generate\<close> reaches its two \<open>close()\<close> calls
  when all five passes complete, and on no path where one of them raises.
\<close>

lemma generate_after_load:
  "store year = Some raw \<Longrightarrow>
   generate RawCPS_generate rand store year =
     (case run_passes raw rand Map.empty of
        Inl (e, cps) \<Rightarrow>
          (Some e, \<lparr>raw_data_handle = Opened, cps_handle = Opened, cps_file = Some cps\<rparr>)
      | Inr cps \<Rightarrow>
          (None, \<lparr>raw_data_handle = Closed, cps_handle = Closed, cps_file = Some cps\<rparr>))"
  by (simp add: generate_def RawCPS_load_def)

lemma generate_success_closes:
  "store year = Some raw \<Longrightarrow> run_passes raw rand Map.empty = Inr cps \<Longrightarrow>
   generate RawCPS_generate rand store year =
     (None, \<lparr>raw_data_handle = Closed, cps_handle = Closed, cps_file = Some cps\<rparr>)"
  by (simp add: generate_after_load)

lemma generate_failure_skips_close:
  "store year = Some raw \<Longrightarrow> run_passes raw rand Map.empty = Inl (e, cps) \<Longrightarrow>
   generate RawCPS_generate rand store year =
     (Some e, \<lparr>raw_data_handle = Opened, cps_handle = Opened, cps_file = Some cps\<rparr>)"
  by (simp add: generate_after_load)

lemma generate_completes:
  assumes "store year = Some raw"
    and "\<forall>p \<in> set (person_table raw).
      length (filter (\<lambda>r. FH_SEQ r * 10 + FFPOS r = PH_SEQ p * 10 + PF_SEQ p)
        (family_table raw)) = 1"
  shows "\<exists>cps. generate RawCPS_generate rand store year =
     (None, \<lparr>raw_data_handle = Closed, cps_handle = Closed, cps_file = Some cps\<rparr>)"
proof -
  from run_passes_completes [OF assms(2)] obtain cps where
    "run_passes raw rand Map.empty = Inr cps" by blast
  then show ?thesis
    using assms(1) by (simp add: generate_after_load)
qed

lemma fx_orphan_run: "run_passes fx_orphan_raw rand Map.empty = Inl (KeyError, fx_orphan_file)"
  by (simp add: run_passes_def add_id_variables_def tax_unit_weight_series_def h5_setitem_def
      h5_getitem_def Series_def stored_def div_1e2_def fx_orphan_raw_def fx_orphan_file_def
      fx_person_def fx_spm_unit_def fx_household_def)

text \<open>
  Claim C9. The year 2020 is in the raw store, and its only person names family 11, which
  the family table does not have. The lookup of the family weight raises KeyError inside
  \<open>add_id_variables\<close>; \<open>generate\<close> ends there, with \<open>close()\<close> called on neither
  handle and the eleven columns written so far left in the file.
\<close>

theorem generate_failure_leaves_handles_open:
  "generate RawCPS_generate rand (Map.empty(2020 \<mapsto> fx_orphan_raw)) 2020 =
     (Some KeyError,
      \<lparr>raw_data_handle = Opened, cps_handle = Opened, cps_file = Some fx_orphan_file\<rparr>)"
  by (simp add: generate_after_load fx_orphan_run)

subsection \<open>Lengths and alignment\<close>

text \<open>
  Claim C2 as stated fails where the tax-unit table is not in ascending order of id. In
  the small survey year the table lists unit 2 before unit 1, so \<open>tax_unit_id\<close> is
  \<open>[2, 1]\<close>; \<open>groupby\<close> sorts its keys, so \<open>tax_unit_weight\<close> is \<open>[1.5, 2.5]\<close>, the weight
  of unit 1 first. Position 0 holds the id of unit 2, whose first member is in family 11
  of weight 2.5, next to the weight 1.5.
\<close>

theorem tax_unit_alignment_counterexample:
  "add_id_variables Map.empty fx_person fx_tax_unit fx_family fx_spm_unit fx_household =
     Inr fx_ids \<and>
   fx_ids ''tax_unit_id'' = Some [2, 1] \<and>
   fx_ids ''tax_unit_weight'' = Some [3 / 2, 5 / 2] \<and>
   map tu_TAX_ID fx_tax_unit = [2, 1] \<and>
   map TAX_ID fx_person = [2, 2, 1] \<and>
   map (\<lambda>p. PH_SEQ p * 10 + PF_SEQ p) fx_person = [11, 12, 12] \<and>
   map (\<lambda>f. (FH_SEQ f * 10 + FFPOS f, real_of_int (FSUP_WGT f) / 100)) fx_family =
     [(11, 5 / 2), (12, 3 / 2)] \<and>
   the (fx_ids ''tax_unit_id'') ! 0 = 2 \<and>
   the (fx_ids ''tax_unit_weight'') ! 0 \<noteq> 5 / 2"
  using fx_add_id_variables
  by (simp add: fx_ids_def fx_person_def fx_family_def fx_tax_unit_def)

text \<open>
  Claim C2, amended. On tables in which every person's \<open>person_family_id\<close> is the
  \<open>family_id\<close> of exactly one family row, the five passes complete on the empty file
  that \<open>generate\<close> opens. Every column of the person, family, SPM-unit and household
  level is then the row-by-row image of its raw table, as the id column of the level is:
  entry \<open>i\<close> of the column and entry \<open>i\<close> of the id column come from row \<open>i\<close> of the
  same table, and the lengths agree. The column \<open>tax_unit_weight\<close> has the length of
  \<open>tax_unit_id\<close> and holds at each position the weight of the tax unit whose id is at
  that position (the family weight of the unit's first member) when the tax-unit table
  lists, in strictly ascending order, exactly the ids that occur as \<open>TAX_ID\<close> in the person
  table.
\<close>

theorem columns_aligned_with_ids:
  assumes "\<forall>p \<in> set (person_table raw).
      length (filter (\<lambda>r. FH_SEQ r * 10 + FFPOS r = PH_SEQ p * 10 + PF_SEQ p)
        (family_table raw)) = 1"
  shows "\<exists>cps'. run_passes raw rand Map.empty = Inr cps' \<and>
    (cps' ''person_id'' =
       Some (map (\<lambda>r. of_int (PH_SEQ r * 100 + P_SEQ r)) (person_table raw)) \<and>
     cps' ''person_tax_unit_id'' =
       Some (map (\<lambda>r. of_int (TAX_ID r)) (person_table raw)) \<and>
     cps' ''person_spm_unit_id'' =
       Some (map (\<lambda>r. of_int (SPM_ID r)) (person_table raw)) \<and>
     cps' ''person_household_id'' =
       Some (map (\<lambda>r. of_int (PH_SEQ r)) (person_table raw)) \<and>
     cps' ''person_family_id'' =
       Some (map (\<lambda>r. of_int (PH_SEQ r * 10 + PF_SEQ r)) (person_table raw)) \<and>
     cps' ''person_weight'' =
       Some (map (\<lambda>r. of_int (A_FNLWGT r) / 100) (person_table raw)) \<and>
     cps' ''age'' =
       Some (map (\<lambda>i. if 80 \<le> A_AGE (person_table raw ! i) \<and> A_AGE (person_table raw ! i) \<le> 85
                then float64_value (float64_plus_int 80 (float64_times_int 5 (int (rand i))))
                else of_int (A_AGE (person_table raw ! i))) [0..<length (person_table raw)]) \<and>
     cps' ''employment_income'' =
       Some (map (\<lambda>r. of_int (WSAL_VAL r)) (person_table raw)) \<and>
     cps' ''self_employment_income'' =
       Some (map (\<lambda>r. of_int (SEMP_VAL r)) (person_table raw)) \<and>
     cps' ''e02100'' =
       Some (map (\<lambda>r. of_int (FRSE_VAL r)) (person_table raw)) \<and>
     cps' ''social_security'' =
       Some (map (\<lambda>r. of_int (SS_VAL r)) (person_table raw)) \<and>
     cps' ''e02300'' =
       Some (map (\<lambda>r. of_int (UC_VAL r)) (person_table raw)) \<and>
     cps' ''e01500'' =
       Some (map (\<lambda>r. if OI_OFF r \<in> {2, 13} then of_int (OI_VAL r) else 0) (person_table raw)) \<and>
     cps' ''e00800'' =
       Some (map (\<lambda>r. if OI_OFF r = 20 then of_int (OI_VAL r) else 0) (person_table raw)) \<and>
     cps' ''family_id'' =
       Some (map (\<lambda>r. of_int (FH_SEQ r * 10 + FFPOS r)) (family_table raw)) \<and>
     cps' ''family_weight'' =
       Some (map (\<lambda>r. of_int (FSUP_WGT r) / 100) (family_table raw)) \<and>
     cps' ''spm_unit_id'' =
       Some (map (\<lambda>r. of_int (su_SPM_ID r)) (spm_unit_table raw)) \<and>
     cps' ''spm_unit_weight'' =
       Some (map (\<lambda>r. of_int (SPM_WEIGHT r) / 100) (spm_unit_table raw)) \<and>
     cps' ''spm_unit_total_income'' =
       Some (map (\<lambda>r. of_int (SPM_TOTVAL r)) (spm_unit_table raw)) \<and>
     cps' ''snap'' =
       Some (map (\<lambda>r. of_int (SPM_SNAPSUB r)) (spm_unit_table raw)) \<and>
     cps' ''spm_unit_capped_housing_subsidy'' =
       Some (map (\<lambda>r. of_int (SPM_CAPHOUSESUB r)) (spm_unit_table raw)) \<and>
     cps' ''free_school_meals'' =
       Some (map (\<lambda>r. of_int (SPM_SCHLUNCH r)) (spm_unit_table raw)) \<and>
     cps' ''spm_unit_energy_subsidy'' =
       Some (map (\<lambda>r. of_int (SPM_ENGVAL r)) (spm_unit_table raw)) \<and>
     cps' ''spm_unit_wic'' =
       Some (map (\<lambda>r. of_int (SPM_WICVAL r)) (spm_unit_table raw)) \<and>
     cps' ''spm_unit_fica'' =
       Some (map (\<lambda>r. of_int (SPM_FICA r)) (spm_unit_table raw)) \<and>
     cps' ''spm_unit_federal_tax'' =
       Some (map (\<lambda>r. of_int (SPM_FEDTAX r)) (spm_unit_table raw)) \<and>
     cps' ''spm_unit_state_tax'' =
       Some (map (\<lambda>r. of_int (SPM_STTAX r)) (spm_unit_table raw)) \<and>
     cps' ''spm_unit_work_childcare_expenses'' =
       Some (map (\<lambda>r. of_int (SPM_CAPWKCCXPNS r)) (spm_unit_table raw)) \<and>
     cps' ''spm_unit_medical_expenses'' =
       Some (map (\<lambda>r. of_int (SPM_MEDXPNS r)) (spm_unit_table raw)) \<and>
     cps' ''spm_unit_spm_threshold'' =
       Some (map (\<lambda>r. of_int (SPM_POVTHRESHOLD r)) (spm_unit_table raw)) \<and>
     cps' ''spm_unit_net_income_reported'' =
       Some (map (\<lambda>r. of_int (SPM_RESOURCES r)) (spm_unit_table raw)) \<and>
     cps' ''reduced_price_school_meals'' =
       Some (map (\<lambda>r. 0) (spm_unit_table raw)) \<and>
     cps' ''household_id'' =
       Some (map (\<lambda>r. of_int (H_SEQ r)) (household_table raw)) \<and>
     cps' ''household_weight'' =
       Some (map (\<lambda>r. of_int (HSUP_WGT r) / 100) (household_table raw)) \<and>
     cps' ''fips'' =
       Some (map (\<lambda>r. of_int (GESTFIPS r)) (household_table raw))) \<and>
    ((\<exists>ids. cps' ''person_id'' = Some ids \<and>
        (\<forall>n \<in> set person_columns. \<exists>col. cps' n = Some col \<and> length col = length ids)) \<and>
     (\<exists>ids. cps' ''family_id'' = Some ids \<and>
        (\<forall>n \<in> set family_columns. \<exists>col. cps' n = Some col \<and> length col = length ids)) \<and>
     (\<exists>ids. cps' ''spm_unit_id'' = Some ids \<and>
        (\<forall>n \<in> set spm_unit_columns_out. \<exists>col. cps' n = Some col \<and> length col = length ids)) \<and>
     (\<exists>ids. cps' ''household_id'' = Some ids \<and>
        (\<forall>n \<in> set household_columns. \<exists>col. cps' n = Some col \<and> length col = length ids))) \<and>
     (sorted_wrt (<) (map tu_TAX_ID (tax_unit_table raw)) \<and>
      set (map tu_TAX_ID (tax_unit_table raw)) = set (map TAX_ID (person_table raw)) \<longrightarrow>
      (\<exists>tw. cps' ''tax_unit_id'' = Some (map (\<lambda>r. of_int (tu_TAX_ID r)) (tax_unit_table raw)) \<and>
         cps' ''tax_unit_weight'' = Some tw \<and> length tw = length (tax_unit_table raw) \<and>
         (\<forall>i before p after f.
            i < length (tax_unit_table raw) \<and> tu_TAX_ID (tax_unit_table raw ! i) = TAX_ID p \<and>
            person_table raw = before @ p # after \<and>
            (\<forall>q \<in> set before. TAX_ID q \<noteq> TAX_ID p) \<and>
            f \<in> set (family_table raw) \<and> FH_SEQ f * 10 + FFPOS f = PH_SEQ p * 10 + PF_SEQ p
            \<longrightarrow> tw ! i = of_int (FSUP_WGT f) / 100)))"
proof -
  from run_passes_completes [OF assms] obtain cps' where
    run: "run_passes raw rand Map.empty = Inr cps'" by blast
  note cols = run_passes_columns [OF run]
  note len = run_passes_lengths [OF run]
  have person: "(\<exists>ids. cps' ''person_id'' = Some ids \<and>
      (\<forall>n \<in> set person_columns. \<exists>col. cps' n = Some col \<and> length col = length ids))"
  proof -
    have "''person_id'' \<in> set person_columns" by (simp add: person_columns_def)
    with len(1) obtain ids where "cps' ''person_id'' = Some ids"
      and "length ids = length (person_table raw)" by blast
    with len(1) show ?thesis by simp
  qed
  have family: "(\<exists>ids. cps' ''family_id'' = Some ids \<and>
      (\<forall>n \<in> set family_columns. \<exists>col. cps' n = Some col \<and> length col = length ids))"
  proof -
    have "''family_id'' \<in> set family_columns" by (simp add: family_columns_def)
    with len(2) obtain ids where "cps' ''family_id'' = Some ids"
      and "length ids = length (family_table raw)" by blast
    with len(2) show ?thesis by simp
  qed
  have spm: "(\<exists>ids. cps' ''spm_unit_id'' = Some ids \<and>
      (\<forall>n \<in> set spm_unit_columns_out. \<exists>col. cps' n = Some col \<and> length col = length ids))"
  proof -
    have "''spm_unit_id'' \<in> set spm_unit_columns_out" by (simp add: spm_unit_columns_out_def)
    with len(3) obtain ids where "cps' ''spm_unit_id'' = Some ids"
      and "length ids = length (spm_unit_table raw)" by blast
    with len(3) show ?thesis by simp
  qed
  have household: "(\<exists>ids. cps' ''household_id'' = Some ids \<and>
      (\<forall>n \<in> set household_columns. \<exists>col. cps' n = Some col \<and> length col = length ids))"
  proof -
    have "''household_id'' \<in> set household_columns" by (simp add: household_columns_def)
    with len(4) obtain ids where "cps' ''household_id'' = Some ids"
      and "length ids = length (household_table raw)" by blast
    with len(4) show ?thesis by simp
  qed
  from run_passes_id_columns [OF run] obtain c1 where
    r1: "add_id_variables Map.empty (person_table raw) (tax_unit_table raw) (family_table raw)
       (spm_unit_table raw) (household_table raw) = Inr c1"
    and le: "c1 \<subseteq>\<^sub>m cps'" by blast
  have tax: "(sorted_wrt (<) (map tu_TAX_ID (tax_unit_table raw)) \<and>
    set (map tu_TAX_ID (tax_unit_table raw)) = set (map TAX_ID (person_table raw)) \<longrightarrow>
    (\<exists>tw. cps' ''tax_unit_id'' = Some (map (\<lambda>r. of_int (tu_TAX_ID r)) (tax_unit_table raw)) \<and>
     cps' ''tax_unit_weight'' = Some tw \<and> length tw = length (tax_unit_table raw) \<and>
     (\<forall>i before p after f.
        i < length (tax_unit_table raw) \<and> tu_TAX_ID (tax_unit_table raw ! i) = TAX_ID p \<and>
        person_table raw = before @ p # after \<and>
        (\<forall>q \<in> set before. TAX_ID q \<noteq> TAX_ID p) \<and>
        f \<in> set (family_table raw) \<and> FH_SEQ f * 10 + FFPOS f = PH_SEQ p * 10 + PF_SEQ p
        \<longrightarrow> tw ! i = of_int (FSUP_WGT f) / 100)))"
  proof
    assume "sorted_wrt (<) (map tu_TAX_ID (tax_unit_table raw)) \<and>
      set (map tu_TAX_ID (tax_unit_table raw)) = set (map TAX_ID (person_table raw))"
    then have asc: "sorted_wrt (<) (map tu_TAX_ID (tax_unit_table raw))"
      and same: "set (map tu_TAX_ID (tax_unit_table raw)) = set (map TAX_ID (person_table raw))"
      by simp_all
    from tax_unit_columns_aligned [OF r1 asc same]
    show "\<exists>tw. cps' ''tax_unit_id'' = Some (map (\<lambda>r. of_int (tu_TAX_ID r)) (tax_unit_table raw)) \<and>
         cps' ''tax_unit_weight'' = Some tw \<and> length tw = length (tax_unit_table raw) \<and>
         (\<forall>i before p after f.
            i < length (tax_unit_table raw) \<and> tu_TAX_ID (tax_unit_table raw ! i) = TAX_ID p \<and>
            person_table raw = before @ p # after \<and>
            (\<forall>q \<in> set before. TAX_ID q \<noteq> TAX_ID p) \<and>
            f \<in> set (family_table raw) \<and> FH_SEQ f * 10 + FFPOS f = PH_SEQ p * 10 + PF_SEQ p
            \<longrightarrow> tw ! i = of_int (FSUP_WGT f) / 100)"
      by (elim exE conjE, intro exI conjI map_le_Some [OF le]) assumption+
  qed
  note levels = conjI [OF person conjI [OF family conjI [OF spm household]]]
  note body = conjI [OF run conjI [OF cols conjI [OF levels tax]]]
  show ?thesis
    by (rule exI [of _ cps']) (rule body)
qed

text \<open>
  The small survey year with its tax-unit table in ascending order: some of the columns,
  the lengths at each level, and the two tax-unit weights beside their ids.
\<close>

theorem columns_aligned_with_ids_witness:
  "\<exists>cps'. run_passes fx_raw fx_rand Map.empty = Inr cps' \<and>
     cps' ''person_id'' = Some [101, 102, 103] \<and>
     cps' ''age'' = Some [165 / 2, 79, 40] \<and>
     cps' ''e01500'' = Some [500, 0, 0] \<and>
     cps' ''family_id'' = Some [11, 12] \<and>
     cps' ''family_weight'' = Some [250 / 100, 150 / 100] \<and>
     cps' ''spm_unit_id'' = Some [1] \<and>
     cps' ''snap'' = Some [10] \<and>
     cps' ''reduced_price_school_meals'' = Some [0] \<and>
     cps' ''household_id'' = Some [1] \<and>
     cps' ''fips'' = Some [6] \<and>
     list_all (\<lambda>n. \<exists>col. cps' n = Some col \<and> length col = 3) person_columns \<and>
     list_all (\<lambda>n. \<exists>col. cps' n = Some col \<and> length col = 2) family_columns \<and>
     list_all (\<lambda>n. \<exists>col. cps' n = Some col \<and> length col = 1) spm_unit_columns_out \<and>
     list_all (\<lambda>n. \<exists>col. cps' n = Some col \<and> length col = 1) household_columns \<and>
     map tu_TAX_ID (tax_unit_table fx_raw) = [1, 2] \<and>
     map TAX_ID (person_table fx_raw) = [2, 2, 1] \<and>
     (\<exists>tw. cps' ''tax_unit_id'' = Some [1, 2] \<and> cps' ''tax_unit_weight'' = Some tw \<and>
        length tw = 2 \<and> tw ! 0 = 150 / 100 \<and> tw ! 1 = 250 / 100)"
proof -
  have resolves: "\<forall>p \<in> set (person_table fx_raw).
      length (filter (\<lambda>r. FH_SEQ r * 10 + FFPOS r = PH_SEQ p * 10 + PF_SEQ p)
        (family_table fx_raw)) = 1"
    by (simp add: fx_raw_def fx_person_def fx_family_def)
  have tus: "map tu_TAX_ID (tax_unit_table fx_raw) = [1, 2]"
    and ps: "map TAX_ID (person_table fx_raw) = [2, 2, 1]"
    by (simp_all add: fx_raw_def fx_tax_unit_ascending_def fx_person_def)
  have asc: "sorted_wrt (<) (map tu_TAX_ID (tax_unit_table fx_raw)) \<and>
      set (map tu_TAX_ID (tax_unit_table fx_raw)) = set (map TAX_ID (person_table fx_raw))"
    unfolding tus ps by auto
  from columns_aligned_with_ids [OF resolves, of fx_rand] show ?thesis
  proof (erule_tac exE, elim conjE)
    fix cps'
    assume run: "run_passes fx_raw fx_rand Map.empty = Inr cps'"
      and pid: "cps' ''person_id'' =
         Some (map (\<lambda>r. of_int (PH_SEQ r * 100 + P_SEQ r)) (person_table fx_raw))"
      and age: "cps' ''age'' =
         Some (map (\<lambda>i. if 80 \<le> A_AGE (person_table fx_raw ! i) \<and> A_AGE (person_table fx_raw ! i) \<le> 85
                  then float64_value (float64_plus_int 80 (float64_times_int 5 (int (fx_rand i))))
                  else of_int (A_AGE (person_table fx_raw ! i))) [0..<length (person_table fx_raw)])"
      and pen: "cps' ''e01500'' =
         Some (map (\<lambda>r. if OI_OFF r \<in> {2, 13} then of_int (OI_VAL r) else 0) (person_table fx_raw))"
      and fid: "cps' ''family_id'' =
         Some (map (\<lambda>r. of_int (FH_SEQ r * 10 + FFPOS r)) (family_table fx_raw))"
      and fw: "cps' ''family_weight'' =
         Some (map (\<lambda>r. of_int (FSUP_WGT r) / 100) (family_table fx_raw))"
      and sid: "cps' ''spm_unit_id'' =
         Some (map (\<lambda>r. of_int (su_SPM_ID r)) (spm_unit_table fx_raw))"
      and snap: "cps' ''snap'' =
         Some (map (\<lambda>r. of_int (SPM_SNAPSUB r)) (spm_unit_table fx_raw))"
      and red: "cps' ''reduced_price_school_meals'' =
         Some (map (\<lambda>r. 0) (spm_unit_table fx_raw))"
      and hid: "cps' ''household_id'' =
         Some (map (\<lambda>r. of_int (H_SEQ r)) (household_table fx_raw))"
      and fips: "cps' ''fips'' =
         Some (map (\<lambda>r. of_int (GESTFIPS r)) (household_table fx_raw))"
      and lp: "\<exists>ids. cps' ''person_id'' = Some ids \<and>
        (\<forall>n \<in> set person_columns. \<exists>col. cps' n = Some col \<and> length col = length ids)"
      and lf: "\<exists>ids. cps' ''family_id'' = Some ids \<and>
        (\<forall>n \<in> set family_columns. \<exists>col. cps' n = Some col \<and> length col = length ids)"
      and ls: "\<exists>ids. cps' ''spm_unit_id'' = Some ids \<and>
        (\<forall>n \<in> set spm_unit_columns_out. \<exists>col. cps' n = Some col \<and> length col = length ids)"
      and lh: "\<exists>ids. cps' ''household_id'' = Some ids \<and>
        (\<forall>n \<in> set household_columns. \<exists>col. cps' n = Some col \<and> length col = length ids)"
      and tax: "sorted_wrt (<) (map tu_TAX_ID (tax_unit_table fx_raw)) \<and>
      set (map tu_TAX_ID (tax_unit_table fx_raw)) = set (map TAX_ID (person_table fx_raw)) \<longrightarrow>
      (\<exists>tw. cps' ''tax_unit_id'' = Some (map (\<lambda>r. of_int (tu_TAX_ID r)) (tax_unit_table fx_raw)) \<and>
         cps' ''tax_unit_weight'' = Some tw \<and> length tw = length (tax_unit_table fx_raw) \<and>
         (\<forall>i before p after f.
            i < length (tax_unit_table fx_raw) \<and> tu_TAX_ID (tax_unit_table fx_raw ! i) = TAX_ID p \<and>
            person_table fx_raw = before @ p # after \<and>
            (\<forall>q \<in> set before. TAX_ID q \<noteq> TAX_ID p) \<and>
            f \<in> set (family_table fx_raw) \<and> FH_SEQ f * 10 + FFPOS f = PH_SEQ p * 10 + PF_SEQ p
            \<longrightarrow> tw ! i = of_int (FSUP_WGT f) / 100))"
    have pid': "cps' ''person_id'' = Some [101, 102, 103]"
      unfolding pid by (simp add: fx_raw_def fx_person_def fx_family_def fx_spm_unit_def
          fx_household_def age_draw_half)
    have age': "cps' ''age'' = Some [165 / 2, 79, 40]"
      unfolding age by (simp add: fx_raw_def fx_person_def fx_family_def fx_spm_unit_def
          fx_household_def age_draw_half)
    have pen': "cps' ''e01500'' = Some [500, 0, 0]"
      unfolding pen by (simp add: fx_raw_def fx_person_def fx_family_def fx_spm_unit_def
          fx_household_def age_draw_half)
    have fid': "cps' ''family_id'' = Some [11, 12]"
      unfolding fid by (simp add: fx_raw_def fx_person_def fx_family_def fx_spm_unit_def
          fx_household_def age_draw_half)
    have fw': "cps' ''family_weight'' = Some [250 / 100, 150 / 100]"
      unfolding fw by (simp add: fx_raw_def fx_person_def fx_family_def fx_spm_unit_def
          fx_household_def age_draw_half)
    have sid': "cps' ''spm_unit_id'' = Some [1]"
      unfolding sid by (simp add: fx_raw_def fx_person_def fx_family_def fx_spm_unit_def
          fx_household_def age_draw_half)
    have snap': "cps' ''snap'' = Some [10]"
      unfolding snap by (simp add: fx_raw_def fx_person_def fx_family_def fx_spm_unit_def
          fx_household_def age_draw_half)
    have red': "cps' ''reduced_price_school_meals'' = Some [0]"
      unfolding red by (simp add: fx_raw_def fx_person_def fx_family_def fx_spm_unit_def
          fx_household_def age_draw_half)
    have hid': "cps' ''household_id'' = Some [1]"
      unfolding hid by (simp add: fx_raw_def fx_person_def fx_family_def fx_spm_unit_def
          fx_household_def age_draw_half)
    have fips': "cps' ''fips'' = Some [6]"
      unfolding fips by (simp add: fx_raw_def fx_person_def fx_family_def fx_spm_unit_def
          fx_household_def age_draw_half)
    from lp obtain ids where "cps' ''person_id'' = Some ids"
      and "\<forall>n \<in> set person_columns. \<exists>col. cps' n = Some col \<and> length col = length ids"
      by (elim exE conjE)
    with pid' have lp': "list_all (\<lambda>n. \<exists>col. cps' n = Some col \<and> length col = 3) person_columns"
      by (simp add: list_all_iff numeral_2_eq_2 numeral_3_eq_3)
    from lf obtain ids where "cps' ''family_id'' = Some ids"
      and "\<forall>n \<in> set family_columns. \<exists>col. cps' n = Some col \<and> length col = length ids"
      by (elim exE conjE)
    with fid' have lf': "list_all (\<lambda>n. \<exists>col. cps' n = Some col \<and> length col = 2) family_columns"
      by (simp add: list_all_iff numeral_2_eq_2 numeral_3_eq_3)
    from ls obtain ids where "cps' ''spm_unit_id'' = Some ids"
      and "\<forall>n \<in> set spm_unit_columns_out. \<exists>col. cps' n = Some col \<and> length col = length ids"
      by (elim exE conjE)
    with sid' have ls': "list_all (\<lambda>n. \<exists>col. cps' n = Some col \<and> length col = 1) spm_unit_columns_out"
      by (simp add: list_all_iff numeral_2_eq_2 numeral_3_eq_3)
    from lh obtain ids where "cps' ''household_id'' = Some ids"
      and "\<forall>n \<in> set household_columns. \<exists>col. cps' n = Some col \<and> length col = length ids"
      by (elim exE conjE)
    with hid' have lh': "list_all (\<lambda>n. \<exists>col. cps' n = Some col \<and> length col = 1) household_columns"
      by (simp add: list_all_iff numeral_2_eq_2 numeral_3_eq_3)
    from tax [THEN mp, OF asc] obtain tw where
      tid: "cps' ''tax_unit_id'' = Some (map (\<lambda>r. of_int (tu_TAX_ID r)) (tax_unit_table fx_raw))"
      and tw: "cps' ''tax_unit_weight'' = Some tw"
      and len: "length tw = length (tax_unit_table fx_raw)"
      and entry: "\<forall>i before p after f.
            i < length (tax_unit_table fx_raw) \<and> tu_TAX_ID (tax_unit_table fx_raw ! i) = TAX_ID p \<and>
            person_table fx_raw = before @ p # after \<and>
            (\<forall>q \<in> set before. TAX_ID q \<noteq> TAX_ID p) \<and>
            f \<in> set (family_table fx_raw) \<and> FH_SEQ f * 10 + FFPOS f = PH_SEQ p * 10 + PF_SEQ p
            \<longrightarrow> tw ! i = of_int (FSUP_WGT f) / 100"
      by (elim exE conjE)
    have tid': "cps' ''tax_unit_id'' = Some [1, 2]"
      unfolding tid by (simp add: fx_raw_def fx_tax_unit_ascending_def)
    have len': "length tw = 2"
      unfolding len by (simp add: fx_raw_def fx_tax_unit_ascending_def)
    have "tw ! 0 = of_int (FSUP_WGT (fx_family ! 1)) / 100"
      by (rule entry [rule_format, of 0 "fx_person ! 2" "take 2 fx_person" "[]"])
        (simp add: fx_raw_def fx_tax_unit_ascending_def fx_person_def fx_family_def)
    then have w0: "tw ! 0 = 150 / 100" by (simp add: fx_family_def)
    have "tw ! 1 = of_int (FSUP_WGT (fx_family ! 0)) / 100"
      by (rule entry [rule_format, of 1 "fx_person ! 0" "[]" "tl fx_person"])
        (simp add: fx_raw_def fx_tax_unit_ascending_def fx_person_def fx_family_def)
    then have w1: "tw ! 1 = 250 / 100" by (simp add: fx_family_def)
    from tid' tw len' w0 w1 have tax': "\<exists>tw. cps' ''tax_unit_id'' = Some [1, 2] \<and>
        cps' ''tax_unit_weight'' = Some tw \<and> length tw = 2 \<and> tw ! 0 = 150 / 100 \<and>
        tw ! 1 = 250 / 100"
      by (intro exI [of _ tw]) simp
    show ?thesis
      by (rule exI [of _ cps'])
        (intro conjI run pid' age' pen' fid' fw' sid' snap' red' hid' fips' lp' lf' ls' lh'
          tus ps tax')
  qed
qed

end
